theory Spec2Isabelle
  imports Main "HOL-Library.AList" "HOL-Library.Multiset"
begin

section \<open>Values, keys and shared data of the cache engines\<close>

text \<open>
  The repository holds three in-memory engines: the asynchronous \<^verbatim>\<open>MemoryDriver\<close>
  (\<^verbatim>\<open>src/drivers/memory.ts\<close>), the asynchronous \<^verbatim>\<open>MemoryLRUDriver\<close>
  (\<^verbatim>\<open>src/drivers/memory-lru.ts\<close>) and the synchronous legacy \<^verbatim>\<open>Cache\<close> class.
  Each is embedded below by explicit state passing. Conventions:

  \<^item> \<^verbatim>\<open>Date.now()\<close> is the extra argument \<open>now\<close> (milliseconds) of every operation
    that reads the clock; TTLs are seconds. JavaScript numbers are modelled by \<open>int\<close>.
  \<^item> A key is a string or a number. The numeric keys of the model are the safe
    integers (absolute value below \<open>2^53\<close>), for which \<^verbatim>\<open>toString()\<close> is the decimal
    numeral.
  \<^item> A JavaScript \<^verbatim>\<open>Map\<close> is an association list in insertion order with distinct
    keys: \<open>map_of\<close> is the lookup, \<open>AList.update\<close> the assignment (an existing key keeps
    its place, a new key is appended), \<open>AList.delete\<close> the removal.
  \<^item> A plain object used as a dictionary (the container \<^verbatim>\<open>data\<close> of the MemoryDriver
    and of the Cache, and the result of \<^verbatim>\<open>mget\<close>) is an association list of its own
    properties, read through \<open>getProperty\<close>, which also finds the members inherited
    from \<^verbatim>\<open>Object.prototype\<close>; see the section on plain objects. The special
    enumeration order of integer-like property names is not modelled, so statements
    about enumerations speak of their elements, not of their order.
  \<^item> Stored values are immutable here and cloning is the identity. This is what
    \<^verbatim>\<open>clone\<close> (the drivers) does for every value of the model, and what
    \<^verbatim>\<open>structuredClone\<close> (the legacy Cache) does for every value that holds no promise
    and no \<^verbatim>\<open>Buffer\<close>; the legacy Cache with \<^verbatim>\<open>useClones\<close> is modelled for such
    values only.
  \<^item> A thrown exception is the \<open>Inl\<close> branch of a sum; an \<^verbatim>\<open>async\<close> method that
    rejects its promise is modelled the same way.
  \<^item> No event listener is registered, so \<^verbatim>\<open>emit\<close> has no effect.
  \<^item> Strings are lists of 8-bit characters.
\<close>

datatype jsval =
    JUndefined
  | JNull
  | JStr string
  | JNum int
  | JBool bool
  | JArr "jsval list"
  | JObj "(string \<times> jsval) list"
  | JPromise
  | JBuffer "nat list"

typedef safe_integer = "{n :: int. - 9007199254740992 < n \<and> n < 9007199254740992}"
  by (rule exI [of _ 0]) simp

datatype Key = KStr string | KNum safe_integer

datatype CacheError = ECACHEFULL | EKEYTYPE

text \<open>\<^verbatim>\<open>key.toString()\<close>: a string is itself, a safe integer is its decimal numeral.\<close>

fun digits :: "nat \<Rightarrow> string" where
  "digits n = (if n < 10 then [char_of (48 + n)] else digits (n div 10) @ [char_of (48 + n mod 10)])"

declare digits.simps [simp del]

definition toString :: "Key \<Rightarrow> string" where
  "toString key = (case key of
      KStr s \<Rightarrow> s
    | KNum n \<Rightarrow> (if Rep_safe_integer n < 0
                 then CHR ''-'' # digits (nat (- Rep_safe_integer n))
                 else digits (nat (Rep_safe_integer n))))"

record WrappedValue =
  t :: int
  v :: jsval

record Stats =
  hits :: int
  misses :: int
  keys :: int
  ksize :: int
  vsize :: int

definition zero_stats :: Stats where
  "zero_stats = \<lparr> hits = 0, misses = 0, keys = 0, ksize = 0, vsize = 0 \<rparr>"

text \<open>The options shared by the three engines; each engine extends them.\<close>

record CommonOptions =
  stdTTL :: int
  checkPeriod :: int
  useClones :: bool
  deleteOnExpire :: bool
  maxKeys :: int

record MemoryDriverOptions = CommonOptions +
  prefix :: string

text \<open>The fields every engine has: the container, the statistics, the options.\<close>

record ('d, 'o) Engine =
  data :: 'd
  stats :: Stats
  options :: 'o

record 'd TaggedEngine = "('d, MemoryDriverOptions) Engine" +
  tags :: "(string \<times> string list) list"

section \<open>Plain objects as containers\<close>

text \<open>
  The MemoryDriver and the Cache keep their entries in a plain object created by
  \<^verbatim>\<open>{}\<close>, whose prototype is \<^verbatim>\<open>Object.prototype\<close>. Reading \<^verbatim>\<open>this.data[k]\<close> therefore
  yields one of three things: the wrapper stored under \<open>k\<close> as an own property; a
  member inherited from \<^verbatim>\<open>Object.prototype\<close> when \<open>k\<close> is one of its twelve names and
  no own property shadows it; or \<^verbatim>\<open>undefined\<close>. An inherited member is a function
  (for \<^verbatim>\<open>__proto__\<close>: the prototype object itself), so it is truthy and different from
  \<^verbatim>\<open>undefined\<close>, and its fields \<^verbatim>\<open>t\<close> and \<^verbatim>\<open>v\<close> are \<^verbatim>\<open>undefined\<close>: every comparison
  of its \<^verbatim>\<open>t\<close> with a number is false, except \<^verbatim>\<open>t !== 0\<close>, which is true.

  An assignment \<^verbatim>\<open>this.data[k] = w\<close> creates or replaces the own property \<open>k\<close>, that is
  \<open>AList.update k w\<close>, for every name but \<^verbatim>\<open>__proto__\<close>. Assigning a wrapper to
  \<^verbatim>\<open>__proto__\<close> creates no own property: it makes the wrapper the prototype of the
  container, and reading \<^verbatim>\<open>__proto__\<close> afterwards yields that wrapper. The association
  list records this as an entry under the name \<^verbatim>\<open>__proto__\<close> (a name no own property
  of the container can have), so that the assignment is \<open>AList.update\<close> here too; such
  an entry is not an own property: \<^verbatim>\<open>delete\<close> leaves it alone (\<open>deleteProperty\<close>) and
  \<^verbatim>\<open>Object.keys\<close> and \<^verbatim>\<open>for ... in\<close> do not list it (\<open>ownEntries\<close>). Once the
  prototype is such a wrapper, the names \<^verbatim>\<open>t\<close> and \<^verbatim>\<open>v\<close> are inherited from it and
  \<^verbatim>\<open>for ... in\<close> enumerates them. The model does not follow this: it describes the
  reads of the names \<^verbatim>\<open>t\<close> and \<^verbatim>\<open>v\<close> and the two sweeps (\<^verbatim>\<open>checkAllData\<close>,
  \<^verbatim>\<open>_checkData\<close>) only for containers without an entry under \<^verbatim>\<open>__proto__\<close>.

  In the result object of \<^verbatim>\<open>mget\<close>, whose own properties are all the caller sees, an
  assignment to \<^verbatim>\<open>__proto__\<close> adds nothing (\<open>setResult\<close>).
\<close>

datatype Property = Own WrappedValue | Inherited | Absent

definition ObjectPrototype :: "string list" where
  "ObjectPrototype =
     [''constructor'', ''__defineGetter__'', ''__defineSetter__'', ''hasOwnProperty'',
      ''__lookupGetter__'', ''__lookupSetter__'', ''isPrototypeOf'', ''propertyIsEnumerable'',
      ''toString'', ''valueOf'', ''__proto__'', ''toLocaleString'']"

definition getProperty :: "(string \<times> WrappedValue) list \<Rightarrow> string \<Rightarrow> Property" where
  "getProperty obj k =
     (case map_of obj k of
        Some d \<Rightarrow> Own d
      | None \<Rightarrow> if k \<in> set ObjectPrototype then Inherited else Absent)"

definition deleteProperty ::
  "string \<Rightarrow> (string \<times> WrappedValue) list \<Rightarrow> (string \<times> WrappedValue) list" where
  "deleteProperty k obj = (if k = ''__proto__'' then obj else AList.delete k obj)"

definition ownEntries :: "(string \<times> WrappedValue) list \<Rightarrow> (string \<times> WrappedValue) list" where
  "ownEntries obj = filter (\<lambda>e. fst e \<noteq> ''__proto__'') obj"

definition setResult :: "string \<Rightarrow> jsval \<Rightarrow> (string \<times> jsval) list \<Rightarrow> (string \<times> jsval) list" where
  "setResult k x result = (if k = ''__proto__'' then result else AList.update k x result)"

section \<open>MemoryDriver\<close>

type_synonym MemoryDriver = "((string \<times> WrappedValue) list) TaggedEngine"

text \<open>The constructor with all options given (the timer is not part of the state).\<close>

definition MemoryDriver_new :: "MemoryDriverOptions \<Rightarrow> MemoryDriver" where
  "MemoryDriver_new opts = \<lparr> data = [], stats = zero_stats, options = opts, tags = [] \<rparr>"

definition getFullKey :: "MemoryDriverOptions \<Rightarrow> Key \<Rightarrow> string" where
  "getFullKey opts key =
     (if prefix opts \<noteq> [] then prefix opts @ '':'' @ toString key else toString key)"

definition startsWith :: "string \<Rightarrow> string \<Rightarrow> bool" where
  "startsWith s p = (take (length p) s = p)"

definition stripPrefix :: "MemoryDriverOptions \<Rightarrow> string \<Rightarrow> string" where
  "stripPrefix opts fullKey =
     (if prefix opts \<noteq> [] \<and> startsWith fullKey (prefix opts @ '':'')
      then drop (length (prefix opts) + 1) fullKey
      else fullKey)"

text \<open>\<^verbatim>\<open>wrap(value, ttl?)\<close>: an omitted \<^verbatim>\<open>ttl\<close> is \<open>None\<close>.\<close>

definition wrap :: "MemoryDriverOptions \<Rightarrow> int \<Rightarrow> jsval \<Rightarrow> int option \<Rightarrow> WrappedValue" where
  "wrap opts now val ttl =
     \<lparr> t = (if ttl = Some 0 then 0
             else if ttl \<noteq> None then now + the ttl * 1000
             else if stdTTL opts = 0 then 0
             else now + stdTTL opts * 1000),
       v = val \<rparr>"

definition unwrap :: "WrappedValue \<Rightarrow> jsval" where
  "unwrap wrapped = (if v wrapped \<noteq> JUndefined then v wrapped else JNull)"

definition getKeySize :: "Key \<Rightarrow> int" where
  "getKeySize key = int (length (toString key))"

definition getValueSize :: "jsval \<Rightarrow> int" where
  "getValueSize val = (case val of
      JStr s \<Rightarrow> int (length s)
    | JNum _ \<Rightarrow> 8
    | JBool _ \<Rightarrow> 8
    | JArr xs \<Rightarrow> 40 * int (length xs)
    | JObj fs \<Rightarrow> 80 * int (length fs)
    | JBuffer bs \<Rightarrow> 80 * int (length bs)
    | JPromise \<Rightarrow> 80 * 0
    | JNull \<Rightarrow> 0
    | JUndefined \<Rightarrow> 0)"

text \<open>
  \<^verbatim>\<open>checkExpiry(key, data)\<close> on a wrapper returns whether the entry may be used. Only
  when \<^verbatim>\<open>deleteOnExpire\<close> is set does an expired entry give \<open>False\<close>; it is then removed
  and only the \<^verbatim>\<open>keys\<close> counter is decremented. On an inherited member the test
  \<^verbatim>\<open>data.t !== 0 && data.t < Date.now()\<close> is false, so \<^verbatim>\<open>checkExpiry\<close> returns true and
  changes nothing, and \<^verbatim>\<open>unwrap\<close> of an inherited member, which has no \<^verbatim>\<open>v\<close>, is
  \<^verbatim>\<open>null\<close>; the methods below say so in their \<open>Inherited\<close> case.
\<close>

definition MemoryDriver_checkExpiry ::
  "MemoryDriver \<Rightarrow> int \<Rightarrow> string \<Rightarrow> WrappedValue \<Rightarrow> bool \<times> MemoryDriver" where
  "MemoryDriver_checkExpiry s now key d =
     (if t d \<noteq> 0 \<and> t d < now then
        (if deleteOnExpire (options s)
         then (False, s\<lparr> data := deleteProperty key (data s),
                          stats := (stats s)\<lparr> keys := keys (stats s) - 1 \<rparr> \<rparr>)
         else (True, s))
      else (True, s))"

definition MemoryDriver_get :: "MemoryDriver \<Rightarrow> int \<Rightarrow> Key \<Rightarrow> jsval \<times> MemoryDriver" where
  "MemoryDriver_get s now key =
     (let fullKey = getFullKey (options s) key in
      case getProperty (data s) fullKey of
        Absent \<Rightarrow> (JUndefined, s\<lparr> stats := (stats s)\<lparr> misses := misses (stats s) + 1 \<rparr> \<rparr>)
      | Inherited \<Rightarrow> (JNull, s\<lparr> stats := (stats s)\<lparr> hits := hits (stats s) + 1 \<rparr> \<rparr>)
      | Own d \<Rightarrow>
          (case MemoryDriver_checkExpiry s now fullKey d of
             (True, s1) \<Rightarrow>
               (unwrap d, s1\<lparr> stats := (stats s1)\<lparr> hits := hits (stats s1) + 1 \<rparr> \<rparr>)
           | (False, s1) \<Rightarrow>
               (JUndefined, s1\<lparr> stats := (stats s1)\<lparr> misses := misses (stats s1) + 1 \<rparr> \<rparr>)))"

text \<open>
  \<^verbatim>\<open>mget\<close>: the result object is an association list; the loop threads the driver
  through the keys in order.
\<close>

fun MemoryDriver_mget_loop ::
  "MemoryDriver \<Rightarrow> int \<Rightarrow> Key list \<Rightarrow> (string \<times> jsval) list
     \<Rightarrow> (string \<times> jsval) list \<times> MemoryDriver" where
  "MemoryDriver_mget_loop s now [] result = (result, s)"
| "MemoryDriver_mget_loop s now (key # ks) result =
     (let fullKey = getFullKey (options s) key in
      case getProperty (data s) fullKey of
        Absent \<Rightarrow>
          MemoryDriver_mget_loop
            (s\<lparr> stats := (stats s)\<lparr> misses := misses (stats s) + 1 \<rparr> \<rparr>) now ks result
      | Inherited \<Rightarrow>
          MemoryDriver_mget_loop
            (s\<lparr> stats := (stats s)\<lparr> hits := hits (stats s) + 1 \<rparr> \<rparr>) now ks
            (setResult (toString key) JNull result)
      | Own d \<Rightarrow>
          (case MemoryDriver_checkExpiry s now fullKey d of
             (True, s1) \<Rightarrow>
               MemoryDriver_mget_loop
                 (s1\<lparr> stats := (stats s1)\<lparr> hits := hits (stats s1) + 1 \<rparr> \<rparr>) now ks
                 (setResult (toString key) (unwrap d) result)
           | (False, s1) \<Rightarrow>
               MemoryDriver_mget_loop
                 (s1\<lparr> stats := (stats s1)\<lparr> misses := misses (stats s1) + 1 \<rparr> \<rparr>) now ks result))"

definition MemoryDriver_mget ::
  "MemoryDriver \<Rightarrow> int \<Rightarrow> Key list \<Rightarrow> (string \<times> jsval) list \<times> MemoryDriver" where
  "MemoryDriver_mget s now ks = MemoryDriver_mget_loop s now ks []"

text \<open>
  \<^verbatim>\<open>set\<close>: the capacity test comes first, before the key is looked up. \<open>existed\<close> is
  the truthiness of \<^verbatim>\<open>this.data[fullKey]\<close>, so an inherited member counts as an
  existing entry, of value size \<open>getValueSize JNull\<close>.
\<close>

definition MemoryDriver_set ::
  "MemoryDriver \<Rightarrow> int \<Rightarrow> Key \<Rightarrow> jsval \<Rightarrow> int option \<Rightarrow> CacheError + (bool \<times> MemoryDriver)" where
  "MemoryDriver_set s now key val ttl =
     (if maxKeys (options s) > -1 \<and> keys (stats s) \<ge> maxKeys (options s) then Inl ECACHEFULL
      else
        let fullKey = getFullKey (options s) key;
            existed = (getProperty (data s) fullKey \<noteq> Absent);
            st1 = (case getProperty (data s) fullKey of
                     Own d \<Rightarrow> (stats s)\<lparr> vsize := vsize (stats s) - getValueSize (unwrap d) \<rparr>
                   | Inherited \<Rightarrow> (stats s)\<lparr> vsize := vsize (stats s) - getValueSize JNull \<rparr>
                   | Absent \<Rightarrow> stats s);
            data' = AList.update fullKey (wrap (options s) now val ttl) (data s);
            st2 = st1\<lparr> vsize := vsize st1 + getValueSize val \<rparr>;
            st3 = (if \<not> existed
                   then st2\<lparr> ksize := ksize st2 + getKeySize key, keys := keys st2 + 1 \<rparr>
                   else st2)
        in Inr (True, s\<lparr> data := data', stats := st3 \<rparr>))"

text \<open>An entry of \<^verbatim>\<open>mset\<close> is the triple of key, value and optional ttl.\<close>

fun MemoryDriver_mset_loop ::
  "MemoryDriver \<Rightarrow> int \<Rightarrow> (Key \<times> jsval \<times> int option) list \<Rightarrow> CacheError + (bool \<times> MemoryDriver)" where
  "MemoryDriver_mset_loop s now [] = Inr (True, s)"
| "MemoryDriver_mset_loop s now ((key, val, ttl) # es) =
     (case MemoryDriver_set s now key val ttl of
        Inl e \<Rightarrow> Inl e
      | Inr (_, s1) \<Rightarrow> MemoryDriver_mset_loop s1 now es)"

definition MemoryDriver_mset ::
  "MemoryDriver \<Rightarrow> int \<Rightarrow> (Key \<times> jsval \<times> int option) list \<Rightarrow> CacheError + (bool \<times> MemoryDriver)" where
  "MemoryDriver_mset s now entries =
     (if maxKeys (options s) > -1
         \<and> keys (stats s) + int (length entries) \<ge> maxKeys (options s)
      then Inl ECACHEFULL
      else MemoryDriver_mset_loop s now entries)"

text \<open>
  \<^verbatim>\<open>del\<close> takes the array of keys (a single key is the singleton array). Every tag
  set loses the deleted key. For an inherited member the counters are decremented and
  the \<^verbatim>\<open>delete\<close> finds no own property.
\<close>

fun MemoryDriver_del_loop :: "MemoryDriver \<Rightarrow> Key list \<Rightarrow> int \<Rightarrow> int \<times> MemoryDriver" where
  "MemoryDriver_del_loop s [] deletedCount = (deletedCount, s)"
| "MemoryDriver_del_loop s (key # ks) deletedCount =
     (let fullKey = getFullKey (options s) key in
      case getProperty (data s) fullKey of
        Absent \<Rightarrow> MemoryDriver_del_loop s ks deletedCount
      | Inherited \<Rightarrow>
          MemoryDriver_del_loop
            (s\<lparr> stats := (stats s)\<lparr> vsize := vsize (stats s) - getValueSize JNull,
                                     ksize := ksize (stats s) - getKeySize key,
                                     keys := keys (stats s) - 1 \<rparr>,
                tags := map (\<lambda>(tg, keySet). (tg, removeAll fullKey keySet)) (tags s) \<rparr>)
            ks (deletedCount + 1)
      | Own d \<Rightarrow>
          MemoryDriver_del_loop
            (s\<lparr> stats := (stats s)\<lparr> vsize := vsize (stats s) - getValueSize (unwrap d),
                                     ksize := ksize (stats s) - getKeySize key,
                                     keys := keys (stats s) - 1 \<rparr>,
                data := deleteProperty fullKey (data s),
                tags := map (\<lambda>(tg, keySet). (tg, removeAll fullKey keySet)) (tags s) \<rparr>)
            ks (deletedCount + 1))"

definition MemoryDriver_del :: "MemoryDriver \<Rightarrow> Key list \<Rightarrow> int \<times> MemoryDriver" where
  "MemoryDriver_del s ks = MemoryDriver_del_loop s ks 0"

definition MemoryDriver_has :: "MemoryDriver \<Rightarrow> int \<Rightarrow> Key \<Rightarrow> bool \<times> MemoryDriver" where
  "MemoryDriver_has s now key =
     (let fullKey = getFullKey (options s) key in
      case getProperty (data s) fullKey of
        Absent \<Rightarrow> (False, s)
      | Inherited \<Rightarrow> (True, s)
      | Own d \<Rightarrow> MemoryDriver_checkExpiry s now fullKey d)"


subsection \<open>Glob patterns\<close>

text \<open>
  \<^verbatim>\<open>patternToRegex\<close> builds the source text of a regular expression by three global
  replacements and anchors it. The first replacement puts a backslash before each of
  the characters \<^verbatim>\<open>. + ^ $ { } ( ) | [ ] \\<close>.
\<close>

definition backslash :: char where
  "backslash = CHR 0x5C"

definition escaped_class :: "char list" where
  "escaped_class = [CHR ''.'', CHR ''+'', CHR ''^'', CHR ''$'', CHR ''{'', CHR ''}'',
                    CHR ''('', CHR '')'', CHR ''|'', CHR ''['', CHR '']'', backslash]"

definition replace_escaped :: "string \<Rightarrow> string" where
  "replace_escaped s = concat (map (\<lambda>c. if c \<in> set escaped_class then [backslash, c] else [c]) s)"

definition replace_star :: "string \<Rightarrow> string" where
  "replace_star s = concat (map (\<lambda>c. if c = CHR ''*'' then ''.*'' else [c]) s)"

definition replace_question :: "string \<Rightarrow> string" where
  "replace_question s = concat (map (\<lambda>c. if c = CHR ''?'' then ''.'' else [c]) s)"

definition patternToRegex :: "string \<Rightarrow> string" where
  "patternToRegex pattern =
     ''^'' @ replace_question (replace_star (replace_escaped pattern)) @ ''$''"

text \<open>
  \<^verbatim>\<open>new RegExp(source).test(key)\<close> for the sources that \<^verbatim>\<open>patternToRegex\<close> can
  build: between the anchors, a backslash followed by a character is that character,
  \<^verbatim>\<open>.*\<close> is any run of characters other than line terminators, \<^verbatim>\<open>.\<close> is one character
  other than a line terminator (the expression is built without the \<^verbatim>\<open>s\<close> flag), and
  any other character is itself. Of the line terminators of JavaScript, line feed and
  carriage return are 8-bit characters.
\<close>

datatype RegExpAtom = Literal char | Dot | DotStar

definition isLineTerminator :: "char \<Rightarrow> bool" where
  "isLineTerminator c = (c = CHR 0x0A \<or> c = CHR 0x0D)"

fun parseAtoms :: "string \<Rightarrow> RegExpAtom list" where
  "parseAtoms [] = []"
| "parseAtoms [c] = (if c = CHR ''.'' then [Dot] else [Literal c])"
| "parseAtoms (c # d # r) =
     (if c = backslash then Literal d # parseAtoms r
      else if c = CHR ''.'' \<and> d = CHR ''*'' then DotStar # parseAtoms r
      else if c = CHR ''.'' then Dot # parseAtoms (d # r)
      else Literal c # parseAtoms (d # r))"

fun matchAtoms :: "RegExpAtom list \<Rightarrow> string \<Rightarrow> bool" where
  "matchAtoms [] s = (s = [])"
| "matchAtoms (Literal c # as) [] = False"
| "matchAtoms (Literal c # as) (x # xs) = (x = c \<and> matchAtoms as xs)"
| "matchAtoms (Dot # as) [] = False"
| "matchAtoms (Dot # as) (x # xs) = (\<not> isLineTerminator x \<and> matchAtoms as xs)"
| "matchAtoms (DotStar # as) [] = matchAtoms as []"
| "matchAtoms (DotStar # as) (x # xs) =
     (matchAtoms as (x # xs) \<or> (\<not> isLineTerminator x \<and> matchAtoms (DotStar # as) xs))"

definition RegExp_test :: "string \<Rightarrow> string \<Rightarrow> bool" where
  "RegExp_test source key =
     (case source of
        [] \<Rightarrow> False
      | c # r \<Rightarrow> c = CHR ''^'' \<and> r \<noteq> [] \<and> last r = CHR ''$''
                 \<and> matchAtoms (parseAtoms (butlast r)) key)"

text \<open>
  The glob matching of the specification: \<^verbatim>\<open>*\<close> is any run of characters, \<^verbatim>\<open>?\<close> is
  one character, any other character is itself. The predicate \<open>wild\<close> says which
  characters a wildcard may stand for; the specification's words are \<open>wild = (\<lambda>_. True)\<close>.
\<close>

fun glob :: "(char \<Rightarrow> bool) \<Rightarrow> string \<Rightarrow> string \<Rightarrow> bool" where
  "glob wild [] s = (s = [])"
| "glob wild (p # ps) [] = (p = CHR ''*'' \<and> glob wild ps [])"
| "glob wild (p # ps) (x # xs) =
     (if p = CHR ''*'' then glob wild ps (x # xs) \<or> (wild x \<and> glob wild (p # ps) xs)
      else if p = CHR ''?'' then wild x \<and> glob wild ps xs
      else x = p \<and> glob wild ps xs)"

subsection \<open>Enumeration, expiry and tags of the MemoryDriver\<close>

text \<open>
  \<^verbatim>\<open>keys(pattern?)\<close>: \<^verbatim>\<open>Object.keys(this.data)\<close> is a snapshot of the own properties;
  the filter callback runs \<^verbatim>\<open>checkExpiry\<close> on each enumerated entry in turn (the
  callback removes no key but the one it is called with, so \<^verbatim>\<open>this.data[fullKey]\<close> is
  the enumerated entry). The pattern is applied under \<^verbatim>\<open>if (pattern)\<close>, that is when
  it is given and not the empty string.
\<close>

fun MemoryDriver_filter_live ::
  "MemoryDriver \<Rightarrow> int \<Rightarrow> (string \<times> WrappedValue) list \<Rightarrow> string list \<times> MemoryDriver" where
  "MemoryDriver_filter_live s now [] = ([], s)"
| "MemoryDriver_filter_live s now ((fullKey, d) # es) =
     (case MemoryDriver_checkExpiry s now fullKey d of
        (ok, s1) \<Rightarrow>
          (case MemoryDriver_filter_live s1 now es of
             (rest, s2) \<Rightarrow> ((if ok then fullKey # rest else rest), s2)))"

definition MemoryDriver_keys ::
  "MemoryDriver \<Rightarrow> int \<Rightarrow> string option \<Rightarrow> string list \<times> MemoryDriver" where
  "MemoryDriver_keys s now pattern =
     (case MemoryDriver_filter_live s now (ownEntries (data s)) of
        (live, s1) \<Rightarrow>
          (let allKeys = map (stripPrefix (options s)) live in
           if pattern \<noteq> None \<and> pattern \<noteq> Some []
           then (filter (RegExp_test (patternToRegex (the pattern))) allKeys, s1)
           else (allKeys, s1)))"

text \<open>
  \<^verbatim>\<open>getTtl\<close>: \<^verbatim>\<open>undefined\<close> is \<open>None\<close>; an inherited member has no \<^verbatim>\<open>t\<close>. \<^verbatim>\<open>ttl\<close>
  rewraps \<^verbatim>\<open>this.data[fullKey].v\<close>, which is \<^verbatim>\<open>undefined\<close> for an inherited member.
\<close>

definition MemoryDriver_getTtl :: "MemoryDriver \<Rightarrow> int \<Rightarrow> Key \<Rightarrow> int option \<times> MemoryDriver" where
  "MemoryDriver_getTtl s now key =
     (let fullKey = getFullKey (options s) key in
      case getProperty (data s) fullKey of
        Absent \<Rightarrow> (None, s)
      | Inherited \<Rightarrow> (None, s)
      | Own d \<Rightarrow>
          (case MemoryDriver_checkExpiry s now fullKey d of
             (True, s1) \<Rightarrow> (Some (t d), s1)
           | (False, s1) \<Rightarrow> (None, s1)))"

definition MemoryDriver_ttl :: "MemoryDriver \<Rightarrow> int \<Rightarrow> Key \<Rightarrow> int \<Rightarrow> bool \<times> MemoryDriver" where
  "MemoryDriver_ttl s now key ttl =
     (let fullKey = getFullKey (options s) key in
      case getProperty (data s) fullKey of
        Absent \<Rightarrow> (False, s)
      | Inherited \<Rightarrow>
          (True, s\<lparr> data := AList.update fullKey
                               (wrap (options s) now JUndefined (Some ttl)) (data s) \<rparr>)
      | Own d \<Rightarrow>
          (case MemoryDriver_checkExpiry s now fullKey d of
             (True, s1) \<Rightarrow>
               (True, s1\<lparr> data := AList.update fullKey
                                    (wrap (options s1) now (v d) (Some ttl)) (data s1) \<rparr>)
           | (False, s1) \<Rightarrow> (False, s1)))"

definition MemoryDriver_flush :: "MemoryDriver \<Rightarrow> MemoryDriver" where
  "MemoryDriver_flush s = s\<lparr> data := [], tags := [], stats := zero_stats \<rparr>"

definition MemoryDriver_getStats :: "MemoryDriver \<Rightarrow> Stats" where
  "MemoryDriver_getStats s = stats s"

fun MemoryDriver_filter_tagged ::
  "MemoryDriver \<Rightarrow> int \<Rightarrow> string list \<Rightarrow> string list \<times> MemoryDriver" where
  "MemoryDriver_filter_tagged s now [] = ([], s)"
| "MemoryDriver_filter_tagged s now (fullKey # ks) =
     (case getProperty (data s) fullKey of
        Absent \<Rightarrow> MemoryDriver_filter_tagged s now ks
      | Inherited \<Rightarrow>
          (case MemoryDriver_filter_tagged s now ks of
             (rest, s2) \<Rightarrow> (fullKey # rest, s2))
      | Own d \<Rightarrow>
          (case MemoryDriver_checkExpiry s now fullKey d of
             (ok, s1) \<Rightarrow>
               (case MemoryDriver_filter_tagged s1 now ks of
                  (rest, s2) \<Rightarrow> ((if ok then fullKey # rest else rest), s2))))"

definition MemoryDriver_getKeysByTag ::
  "MemoryDriver \<Rightarrow> int \<Rightarrow> string \<Rightarrow> string list \<times> MemoryDriver" where
  "MemoryDriver_getKeysByTag s now tg =
     (case map_of (tags s) tg of
        None \<Rightarrow> ([], s)
      | Some keySet \<Rightarrow>
          (case MemoryDriver_filter_tagged s now keySet of
             (live, s1) \<Rightarrow> (map (stripPrefix (options s)) live, s1)))"

text \<open>
  The tags are a \<^verbatim>\<open>Map\<close> from tag to \<^verbatim>\<open>Set\<close>; a \<^verbatim>\<open>Set\<close> is a list without
  repetition in insertion order. Adding a key to the sets of the given tags creates a
  set on first use. \<^verbatim>\<open>tag\<close> tests \<^verbatim>\<open>!this.data[fullKey]\<close> and nothing else.
\<close>

definition addToTag :: "string \<Rightarrow> (string \<times> string list) list \<Rightarrow> string \<Rightarrow> (string \<times> string list) list" where
  "addToTag fullKey tgs tg =
     (let tgs1 = (if map_of tgs tg = None then AList.update tg [] tgs else tgs);
          keySet = the (map_of tgs1 tg)
      in AList.update tg (if fullKey \<in> set keySet then keySet else keySet @ [fullKey]) tgs1)"

definition MemoryDriver_tag :: "MemoryDriver \<Rightarrow> Key \<Rightarrow> string list \<Rightarrow> bool \<times> MemoryDriver" where
  "MemoryDriver_tag s key tgs =
     (let fullKey = getFullKey (options s) key in
      if getProperty (data s) fullKey = Absent then (False, s)
      else (True, s\<lparr> tags := foldl (addToTag fullKey) (tags s) tgs \<rparr>))"

definition MemoryDriver_deleteByTag :: "MemoryDriver \<Rightarrow> int \<Rightarrow> string \<Rightarrow> int \<times> MemoryDriver" where
  "MemoryDriver_deleteByTag s now tg =
     (case MemoryDriver_getKeysByTag s now tg of
        (ks, s1) \<Rightarrow>
          if ks = [] then (0, s1)
          else (case MemoryDriver_del s1 (map KStr ks) of
                  (result, s2) \<Rightarrow> (result, s2\<lparr> tags := AList.delete tg (tags s2) \<rparr>)))"

text \<open>The periodic sweep \<^verbatim>\<open>checkAllData\<close>, one pass over the own entries.\<close>

definition MemoryDriver_checkAllData :: "MemoryDriver \<Rightarrow> int \<Rightarrow> MemoryDriver" where
  "MemoryDriver_checkAllData s now = snd (MemoryDriver_filter_live s now (ownEntries (data s)))"


section \<open>MemoryLRUDriver\<close>

text \<open>
  The driver keeps one node object per key, reachable both from the \<^verbatim>\<open>Map\<close> and from
  the doubly linked list, so a node is addressed here by its key: \<^verbatim>\<open>prev\<close>, \<^verbatim>\<open>next\<close>,
  \<^verbatim>\<open>head\<close> and \<^verbatim>\<open>tail\<close> hold keys (\<open>None\<close> for \<^verbatim>\<open>null\<close>), and an assignment to a
  field of a node object is an update of the node stored under that key. (The source's
  field names \<^verbatim>\<open>key\<close>, \<^verbatim>\<open>value\<close>, \<^verbatim>\<open>prev\<close>, \<^verbatim>\<open>next\<close> carry the prefix \<open>node_\<close>.)
  The helper methods \<^verbatim>\<open>getFullKey\<close>, \<^verbatim>\<open>stripPrefix\<close>, \<^verbatim>\<open>wrap\<close>, \<^verbatim>\<open>unwrap\<close>,
  \<^verbatim>\<open>getKeySize\<close>, \<^verbatim>\<open>getValueSize\<close> and \<^verbatim>\<open>patternToRegex\<close> repeat those of the
  MemoryDriver word for word and are shared with it. The list methods are only ever
  called on a node that is in the \<^verbatim>\<open>Map\<close>; for a key without a node the model of
  \<^verbatim>\<open>removeNode\<close> leaves the driver as it is.
\<close>

record LRUNode =
  node_key :: string
  node_value :: WrappedValue
  node_prev :: "string option"
  node_next :: "string option"

record MemoryLRUDriver = "((string \<times> LRUNode) list) TaggedEngine" +
  head :: "string option"
  tail :: "string option"

definition MemoryLRUDriver_new :: "MemoryDriverOptions \<Rightarrow> MemoryLRUDriver" where
  "MemoryLRUDriver_new opts =
     \<lparr> data = [], stats = zero_stats, options = opts, tags = [], head = None, tail = None \<rparr>"

definition modifyNode :: "string \<Rightarrow> (LRUNode \<Rightarrow> LRUNode) \<Rightarrow> MemoryLRUDriver \<Rightarrow> MemoryLRUDriver" where
  "modifyNode k f s = s\<lparr> data := AList.map_entry k f (data s) \<rparr>"

definition addToHead :: "MemoryLRUDriver \<Rightarrow> string \<Rightarrow> MemoryLRUDriver" where
  "addToHead s k =
     (let s1 = modifyNode k (\<lambda>n. n\<lparr> node_next := head s \<rparr>) s;
          s2 = modifyNode k (\<lambda>n. n\<lparr> node_prev := None \<rparr>) s1;
          s3 = (case head s2 of
                  Some h \<Rightarrow> modifyNode h (\<lambda>n. n\<lparr> node_prev := Some k \<rparr>) s2
                | None \<Rightarrow> s2);
          s4 = s3\<lparr> head := Some k \<rparr>
      in if tail s4 = None then s4\<lparr> tail := Some k \<rparr> else s4)"

definition removeNode :: "MemoryLRUDriver \<Rightarrow> string \<Rightarrow> MemoryLRUDriver" where
  "removeNode s k =
     (case map_of (data s) k of
        None \<Rightarrow> s
      | Some node \<Rightarrow>
          (let s1 = (case node_prev node of
                       Some p \<Rightarrow> modifyNode p (\<lambda>n. n\<lparr> node_next := node_next node \<rparr>) s
                     | None \<Rightarrow> s\<lparr> head := node_next node \<rparr>)
           in case node_next node of
                Some nx \<Rightarrow> modifyNode nx (\<lambda>n. n\<lparr> node_prev := node_prev node \<rparr>) s1
              | None \<Rightarrow> s1\<lparr> tail := node_prev node \<rparr>))"

definition moveToHead :: "MemoryLRUDriver \<Rightarrow> string \<Rightarrow> MemoryLRUDriver" where
  "moveToHead s k = addToHead (removeNode s k) k"

definition removeTail :: "MemoryLRUDriver \<Rightarrow> LRUNode option \<times> MemoryLRUDriver" where
  "removeTail s =
     (case tail s of
        None \<Rightarrow> (None, s)
      | Some k \<Rightarrow> (map_of (data s) k, removeNode s k))"

definition evictLRU :: "MemoryLRUDriver \<Rightarrow> MemoryLRUDriver" where
  "evictLRU s =
     (case removeTail s of
        (None, s1) \<Rightarrow> s1
      | (Some removed, s1) \<Rightarrow>
          s1\<lparr> data := AList.delete (node_key removed) (data s1),
              stats := (stats s1)\<lparr>
                 vsize := vsize (stats s1) - getValueSize (unwrap (node_value removed)),
                 ksize := ksize (stats s1) - getKeySize (KStr (node_key removed)),
                 keys := keys (stats s1) - 1 \<rparr> \<rparr>)"

definition MemoryLRUDriver_checkExpiry ::
  "MemoryLRUDriver \<Rightarrow> int \<Rightarrow> string \<Rightarrow> WrappedValue \<Rightarrow> bool \<times> MemoryLRUDriver" where
  "MemoryLRUDriver_checkExpiry s now key d =
     (if t d \<noteq> 0 \<and> t d < now then
        (if deleteOnExpire (options s)
         then (case map_of (data s) key of
                 Some node \<Rightarrow>
                   (let s1 = removeNode s key in
                    (False, s1\<lparr> data := AList.delete key (data s1),
                               stats := (stats s1)\<lparr> keys := keys (stats s1) - 1 \<rparr> \<rparr>))
               | None \<Rightarrow> (False, s))
         else (True, s))
      else (True, s))"

definition MemoryLRUDriver_get :: "MemoryLRUDriver \<Rightarrow> int \<Rightarrow> Key \<Rightarrow> jsval \<times> MemoryLRUDriver" where
  "MemoryLRUDriver_get s now key =
     (let fullKey = getFullKey (options s) key in
      case map_of (data s) fullKey of
        None \<Rightarrow> (JUndefined, s\<lparr> stats := (stats s)\<lparr> misses := misses (stats s) + 1 \<rparr> \<rparr>)
      | Some node \<Rightarrow>
          (case MemoryLRUDriver_checkExpiry s now fullKey (node_value node) of
             (True, s1) \<Rightarrow>
               (unwrap (node_value node),
                moveToHead (s1\<lparr> stats := (stats s1)\<lparr> hits := hits (stats s1) + 1 \<rparr> \<rparr>) fullKey)
           | (False, s1) \<Rightarrow>
               (JUndefined, s1\<lparr> stats := (stats s1)\<lparr> misses := misses (stats s1) + 1 \<rparr> \<rparr>)))"

fun MemoryLRUDriver_mget_loop ::
  "MemoryLRUDriver \<Rightarrow> int \<Rightarrow> Key list \<Rightarrow> (string \<times> jsval) list
     \<Rightarrow> (string \<times> jsval) list \<times> MemoryLRUDriver" where
  "MemoryLRUDriver_mget_loop s now [] result = (result, s)"
| "MemoryLRUDriver_mget_loop s now (key # ks) result =
     (let fullKey = getFullKey (options s) key in
      case map_of (data s) fullKey of
        None \<Rightarrow>
          MemoryLRUDriver_mget_loop
            (s\<lparr> stats := (stats s)\<lparr> misses := misses (stats s) + 1 \<rparr> \<rparr>) now ks result
      | Some node \<Rightarrow>
          (case MemoryLRUDriver_checkExpiry s now fullKey (node_value node) of
             (True, s1) \<Rightarrow>
               MemoryLRUDriver_mget_loop
                 (moveToHead (s1\<lparr> stats := (stats s1)\<lparr> hits := hits (stats s1) + 1 \<rparr> \<rparr>) fullKey)
                 now ks (setResult (toString key) (unwrap (node_value node)) result)
           | (False, s1) \<Rightarrow>
               MemoryLRUDriver_mget_loop
                 (s1\<lparr> stats := (stats s1)\<lparr> misses := misses (stats s1) + 1 \<rparr> \<rparr>) now ks result))"

definition MemoryLRUDriver_mget ::
  "MemoryLRUDriver \<Rightarrow> int \<Rightarrow> Key list \<Rightarrow> (string \<times> jsval) list \<times> MemoryLRUDriver" where
  "MemoryLRUDriver_mget s now ks = MemoryLRUDriver_mget_loop s now ks []"

text \<open>
  \<^verbatim>\<open>set\<close> never throws. The new node object is entered under its key and then linked
  at the head (the source links it first and enters it next; the two steps touch
  different objects).
\<close>

definition MemoryLRUDriver_set ::
  "MemoryLRUDriver \<Rightarrow> int \<Rightarrow> Key \<Rightarrow> jsval \<Rightarrow> int option \<Rightarrow> bool \<times> MemoryLRUDriver" where
  "MemoryLRUDriver_set s now key val ttl =
     (let fullKey = getFullKey (options s) key;
          existingNode = map_of (data s) fullKey;
          s1 = (case existingNode of
                  Some node \<Rightarrow>
                    removeNode
                      (s\<lparr> stats := (stats s)\<lparr> vsize := vsize (stats s)
                                   - getValueSize (unwrap (node_value node)) \<rparr> \<rparr>) fullKey
                | None \<Rightarrow>
                    (if maxKeys (options s) > 0 \<and> keys (stats s) \<ge> maxKeys (options s)
                     then evictLRU s else s));
          wrapped = wrap (options s1) now val ttl;
          node = \<lparr> node_key = fullKey, node_value = wrapped, node_prev = None, node_next = None \<rparr>;
          s2 = addToHead (s1\<lparr> data := AList.update fullKey node (data s1) \<rparr>) fullKey;
          st1 = (stats s2)\<lparr> vsize := vsize (stats s2) + getValueSize val \<rparr>;
          st2 = (if existingNode = None
                 then st1\<lparr> ksize := ksize st1 + getKeySize key, keys := keys st1 + 1 \<rparr>
                 else st1)
      in (True, s2\<lparr> stats := st2 \<rparr>))"

fun MemoryLRUDriver_mset ::
  "MemoryLRUDriver \<Rightarrow> int \<Rightarrow> (Key \<times> jsval \<times> int option) list \<Rightarrow> bool \<times> MemoryLRUDriver" where
  "MemoryLRUDriver_mset s now [] = (True, s)"
| "MemoryLRUDriver_mset s now ((key, val, ttl) # es) =
     MemoryLRUDriver_mset (snd (MemoryLRUDriver_set s now key val ttl)) now es"

fun MemoryLRUDriver_del_loop :: "MemoryLRUDriver \<Rightarrow> Key list \<Rightarrow> int \<Rightarrow> int \<times> MemoryLRUDriver" where
  "MemoryLRUDriver_del_loop s [] deletedCount = (deletedCount, s)"
| "MemoryLRUDriver_del_loop s (key # ks) deletedCount =
     (let fullKey = getFullKey (options s) key in
      case map_of (data s) fullKey of
        None \<Rightarrow> MemoryLRUDriver_del_loop s ks deletedCount
      | Some node \<Rightarrow>
          (let s1 = removeNode
                      (s\<lparr> stats := (stats s)\<lparr>
                             vsize := vsize (stats s) - getValueSize (unwrap (node_value node)),
                             ksize := ksize (stats s) - getKeySize key,
                             keys := keys (stats s) - 1 \<rparr> \<rparr>) fullKey
           in MemoryLRUDriver_del_loop
                (s1\<lparr> data := AList.delete fullKey (data s1),
                     tags := map (\<lambda>(tg, keySet). (tg, removeAll fullKey keySet)) (tags s1) \<rparr>)
                ks (deletedCount + 1)))"

definition MemoryLRUDriver_del :: "MemoryLRUDriver \<Rightarrow> Key list \<Rightarrow> int \<times> MemoryLRUDriver" where
  "MemoryLRUDriver_del s ks = MemoryLRUDriver_del_loop s ks 0"

definition MemoryLRUDriver_has :: "MemoryLRUDriver \<Rightarrow> int \<Rightarrow> Key \<Rightarrow> bool \<times> MemoryLRUDriver" where
  "MemoryLRUDriver_has s now key =
     (let fullKey = getFullKey (options s) key in
      case map_of (data s) fullKey of
        None \<Rightarrow> (False, s)
      | Some node \<Rightarrow> MemoryLRUDriver_checkExpiry s now fullKey (node_value node))"

text \<open>\<^verbatim>\<open>keys\<close> filters a snapshot of the node objects, \<^verbatim>\<open>Array.from(this.data.values())\<close>.\<close>

fun MemoryLRUDriver_filter_live ::
  "MemoryLRUDriver \<Rightarrow> int \<Rightarrow> (string \<times> LRUNode) list \<Rightarrow> string list \<times> MemoryLRUDriver" where
  "MemoryLRUDriver_filter_live s now [] = ([], s)"
| "MemoryLRUDriver_filter_live s now ((k, node) # es) =
     (case MemoryLRUDriver_checkExpiry s now (node_key node) (node_value node) of
        (ok, s1) \<Rightarrow>
          (case MemoryLRUDriver_filter_live s1 now es of
             (rest, s2) \<Rightarrow> ((if ok then node_key node # rest else rest), s2)))"

definition MemoryLRUDriver_keys ::
  "MemoryLRUDriver \<Rightarrow> int \<Rightarrow> string option \<Rightarrow> string list \<times> MemoryLRUDriver" where
  "MemoryLRUDriver_keys s now pattern =
     (case MemoryLRUDriver_filter_live s now (data s) of
        (live, s1) \<Rightarrow>
          (let allKeys = map (stripPrefix (options s)) live in
           if pattern \<noteq> None \<and> pattern \<noteq> Some []
           then (filter (RegExp_test (patternToRegex (the pattern))) allKeys, s1)
           else (allKeys, s1)))"

definition MemoryLRUDriver_getTtl ::
  "MemoryLRUDriver \<Rightarrow> int \<Rightarrow> Key \<Rightarrow> int option \<times> MemoryLRUDriver" where
  "MemoryLRUDriver_getTtl s now key =
     (let fullKey = getFullKey (options s) key in
      case map_of (data s) fullKey of
        None \<Rightarrow> (None, s)
      | Some node \<Rightarrow>
          (case MemoryLRUDriver_checkExpiry s now fullKey (node_value node) of
             (True, s1) \<Rightarrow> (Some (t (node_value node)), s1)
           | (False, s1) \<Rightarrow> (None, s1)))"

definition MemoryLRUDriver_ttl ::
  "MemoryLRUDriver \<Rightarrow> int \<Rightarrow> Key \<Rightarrow> int \<Rightarrow> bool \<times> MemoryLRUDriver" where
  "MemoryLRUDriver_ttl s now key ttl =
     (let fullKey = getFullKey (options s) key in
      case map_of (data s) fullKey of
        None \<Rightarrow> (False, s)
      | Some node \<Rightarrow>
          (case MemoryLRUDriver_checkExpiry s now fullKey (node_value node) of
             (True, s1) \<Rightarrow>
               (True,
                moveToHead
                  (modifyNode fullKey
                     (\<lambda>n. n\<lparr> node_value := wrap (options s1) now (v (node_value n)) (Some ttl) \<rparr>) s1)
                  fullKey)
           | (False, s1) \<Rightarrow> (False, s1)))"

definition MemoryLRUDriver_flush :: "MemoryLRUDriver \<Rightarrow> MemoryLRUDriver" where
  "MemoryLRUDriver_flush s =
     s\<lparr> data := [], head := None, tail := None, tags := [], stats := zero_stats \<rparr>"

definition MemoryLRUDriver_tag ::
  "MemoryLRUDriver \<Rightarrow> Key \<Rightarrow> string list \<Rightarrow> bool \<times> MemoryLRUDriver" where
  "MemoryLRUDriver_tag s key tgs =
     (let fullKey = getFullKey (options s) key in
      if map_of (data s) fullKey = None then (False, s)
      else (True, s\<lparr> tags := foldl (addToTag fullKey) (tags s) tgs \<rparr>))"

definition MemoryLRUDriver_checkAllData :: "MemoryLRUDriver \<Rightarrow> int \<Rightarrow> MemoryLRUDriver" where
  "MemoryLRUDriver_checkAllData s now = snd (MemoryLRUDriver_filter_live s now (data s))"


section \<open>The legacy synchronous Cache\<close>

text \<open>
  The class \<^verbatim>\<open>Cache\<close> is modelled at \<^verbatim>\<open>forceString = false\<close>, its default (the option
  serialises every stored value with \<^verbatim>\<open>JSON.stringify\<close>, which is outside the model), and
  with numeric TTLs. The flags \<^verbatim>\<open>_enableStats\<close> and \<^verbatim>\<open>_checkTTL\<close> are computed by the
  constructor from the options and never change. With \<^verbatim>\<open>maxPerformance\<close> the object has
  a second container \<^verbatim>\<open>dataMap\<close>, a \<^verbatim>\<open>Map\<close>, that \<^verbatim>\<open>get\<close>, \<^verbatim>\<open>set\<close> and \<^verbatim>\<open>has\<close> use
  instead of the plain object \<^verbatim>\<open>data\<close>; every other method uses \<^verbatim>\<open>data\<close>. Keys have
  the type \<^verbatim>\<open>Key\<close>, so \<^verbatim>\<open>_isInvalidKey\<close> finds no error.
\<close>

record Options = CommonOptions +
  objectValueSize :: int
  promiseValueSize :: int
  arrayValueSize :: int
  enableStats :: bool
  enableEvents :: bool
  maxPerformance :: bool

record Cache = "((string \<times> WrappedValue) list, Options) Engine" +
  dataMap :: "(string \<times> WrappedValue) list option"

definition Cache_new :: "Options \<Rightarrow> Cache" where
  "Cache_new opts =
     \<lparr> data = [], stats = zero_stats, options = opts,
       dataMap = (if maxPerformance opts then Some [] else None) \<rparr>"

definition DEFAULT_OPTIONS :: Options where
  "DEFAULT_OPTIONS =
     \<lparr> stdTTL = 0, checkPeriod = 600, useClones = True, deleteOnExpire = True, maxKeys = -1,
       objectValueSize = 80, promiseValueSize = 80, arrayValueSize = 40,
       enableStats = True, enableEvents = True, maxPerformance = False \<rparr>"

definition checkTTL :: "Options \<Rightarrow> bool" where
  "checkTTL opts = (stdTTL opts \<noteq> 0 \<or> checkPeriod opts \<noteq> 0)"

definition getValLength :: "Options \<Rightarrow> jsval \<Rightarrow> int" where
  "getValLength opts val = (case val of
      JStr s \<Rightarrow> int (length s)
    | JArr xs \<Rightarrow> arrayValueSize opts * int (length xs)
    | JNum _ \<Rightarrow> 8
    | JPromise \<Rightarrow> promiseValueSize opts
    | JBuffer bs \<Rightarrow> int (length bs)
    | JObj fs \<Rightarrow> objectValueSize opts * int (length fs)
    | JBool _ \<Rightarrow> 8
    | JNull \<Rightarrow> 0
    | JUndefined \<Rightarrow> 0)"

text \<open>
  What \<^verbatim>\<open>get\<close>, \<^verbatim>\<open>set\<close> and \<^verbatim>\<open>has\<close> read: the \<^verbatim>\<open>Map\<close>, which has no inherited
  members, or the plain object.
\<close>

definition fastProperty :: "Cache \<Rightarrow> string \<Rightarrow> Property" where
  "fastProperty s keyStr =
     (case dataMap s of
        Some m \<Rightarrow> (case map_of m keyStr of Some d \<Rightarrow> Own d | None \<Rightarrow> Absent)
      | None \<Rightarrow> getProperty (data s) keyStr)"

definition fastDelete :: "string \<Rightarrow> Cache \<Rightarrow> Cache" where
  "fastDelete keyStr s =
     (case dataMap s of
        Some m \<Rightarrow> s\<lparr> dataMap := Some (AList.delete keyStr m) \<rparr>
      | None \<Rightarrow> s\<lparr> data := deleteProperty keyStr (data s) \<rparr>)"

definition fastStore :: "string \<Rightarrow> WrappedValue \<Rightarrow> Cache \<Rightarrow> Cache" where
  "fastStore keyStr w s =
     (case dataMap s of
        Some m \<Rightarrow> s\<lparr> dataMap := Some (AList.update keyStr w m) \<rparr>
      | None \<Rightarrow> s\<lparr> data := AList.update keyStr w (data s) \<rparr>)"

text \<open>
  \<^verbatim>\<open>get\<close>: a miss is \<^verbatim>\<open>data === undefined\<close>. An inherited member is not
  \<^verbatim>\<open>undefined\<close> and its \<^verbatim>\<open>t\<close> is not below \<^verbatim>\<open>Date.now()\<close>, so it is a hit whose value
  \<^verbatim>\<open>data.v\<close> is \<^verbatim>\<open>undefined\<close>.
\<close>

definition Cache_get :: "Cache \<Rightarrow> int \<Rightarrow> Key \<Rightarrow> jsval \<times> Cache" where
  "Cache_get s now key =
     (let keyStr = toString key in
      case fastProperty s keyStr of
        Absent \<Rightarrow>
          (JUndefined,
           if enableStats (options s)
           then s\<lparr> stats := (stats s)\<lparr> misses := misses (stats s) + 1 \<rparr> \<rparr> else s)
      | Inherited \<Rightarrow>
          (JUndefined,
           if enableStats (options s)
           then s\<lparr> stats := (stats s)\<lparr> hits := hits (stats s) + 1 \<rparr> \<rparr> else s)
      | Own d \<Rightarrow>
          (if checkTTL (options s) \<and> t d \<noteq> 0 \<and> t d < now then
             (let s1 = (if enableStats (options s)
                        then s\<lparr> stats := (stats s)\<lparr>
                                 misses := misses (stats s) + 1,
                                 vsize := vsize (stats s) - getValLength (options s) (v d),
                                 ksize := ksize (stats s) - int (length keyStr),
                                 keys := keys (stats s) - 1 \<rparr> \<rparr>
                        else s);
                  s2 = (if deleteOnExpire (options s1) then fastDelete keyStr s1 else s1)
              in (JUndefined, s2))
           else
             (v d,
              if enableStats (options s)
              then s\<lparr> stats := (stats s)\<lparr> hits := hits (stats s) + 1 \<rparr> \<rparr> else s)))"

text \<open>
  \<^verbatim>\<open>del\<close> works on \<^verbatim>\<open>data\<close> and always updates the statistics. Its test is the
  truthiness of \<^verbatim>\<open>this.data[keyStr]\<close>; for an inherited member \<^verbatim>\<open>data.v\<close> is
  \<^verbatim>\<open>undefined\<close> and the \<^verbatim>\<open>delete\<close> finds no own property.
\<close>

fun Cache_del_loop :: "Cache \<Rightarrow> Key list \<Rightarrow> int \<Rightarrow> int \<times> Cache" where
  "Cache_del_loop s [] delCount = (delCount, s)"
| "Cache_del_loop s (key # ks) delCount =
     (let keyStr = toString key in
      case getProperty (data s) keyStr of
        Absent \<Rightarrow> Cache_del_loop s ks delCount
      | Inherited \<Rightarrow>
          Cache_del_loop
            (s\<lparr> stats := (stats s)\<lparr> vsize := vsize (stats s) - getValLength (options s) JUndefined,
                                     ksize := ksize (stats s) - int (length keyStr),
                                     keys := keys (stats s) - 1 \<rparr> \<rparr>)
            ks (delCount + 1)
      | Own d \<Rightarrow>
          Cache_del_loop
            (s\<lparr> stats := (stats s)\<lparr> vsize := vsize (stats s) - getValLength (options s) (v d),
                                     ksize := ksize (stats s) - int (length keyStr),
                                     keys := keys (stats s) - 1 \<rparr>,
                data := deleteProperty keyStr (data s) \<rparr>)
            ks (delCount + 1))"

definition Cache_del :: "Cache \<Rightarrow> Key list \<Rightarrow> int \<times> Cache" where
  "Cache_del s ks = Cache_del_loop s ks 0"

text \<open>
  \<^verbatim>\<open>mget\<close> reads \<^verbatim>\<open>data\<close> and counts whatever \<^verbatim>\<open>enableStats\<close> says. For an inherited
  member the test \<^verbatim>\<open>data.t === 0 || data.t >= now\<close> is false, so it takes the branch
  of an expired entry.
\<close>

fun Cache_mget_loop ::
  "Cache \<Rightarrow> int \<Rightarrow> Key list \<Rightarrow> (string \<times> jsval) list \<Rightarrow> (string \<times> jsval) list \<times> Cache" where
  "Cache_mget_loop s now [] result = (result, s)"
| "Cache_mget_loop s now (key # ks) result =
     (let keyStr = toString key in
      case getProperty (data s) keyStr of
        Own d \<Rightarrow>
          (if t d = 0 \<or> t d \<ge> now
           then Cache_mget_loop
                  (s\<lparr> stats := (stats s)\<lparr> hits := hits (stats s) + 1 \<rparr> \<rparr>) now ks
                  (setResult keyStr (v d) result)
           else
             (let s1 = s\<lparr> stats := (stats s)\<lparr> misses := misses (stats s) + 1 \<rparr> \<rparr>;
                  s2 = (if deleteOnExpire (options s1) then snd (Cache_del s1 [key]) else s1)
              in Cache_mget_loop s2 now ks result))
      | Inherited \<Rightarrow>
          (let s1 = s\<lparr> stats := (stats s)\<lparr> misses := misses (stats s) + 1 \<rparr> \<rparr>;
               s2 = (if deleteOnExpire (options s1) then snd (Cache_del s1 [key]) else s1)
           in Cache_mget_loop s2 now ks result)
      | Absent \<Rightarrow>
          Cache_mget_loop
            (s\<lparr> stats := (stats s)\<lparr> misses := misses (stats s) + 1 \<rparr> \<rparr>) now ks result)"

definition Cache_mget :: "Cache \<Rightarrow> int \<Rightarrow> Key list \<Rightarrow> (string \<times> jsval) list \<times> Cache" where
  "Cache_mget s now ks = Cache_mget_loop s now ks []"

text \<open>
  \<^verbatim>\<open>set\<close>: the capacity test applies to new keys only; \<open>existent\<close> is
  \<^verbatim>\<open>this.data[keyStr] !== undefined\<close> (or \<^verbatim>\<open>dataMap.has(keyStr)\<close>).
\<close>

definition Cache_set :: "Cache \<Rightarrow> int \<Rightarrow> Key \<Rightarrow> jsval \<Rightarrow> int option \<Rightarrow> CacheError + (bool \<times> Cache)" where
  "Cache_set s now key val ttl =
     (let keyStr = toString key;
          existent = (fastProperty s keyStr \<noteq> Absent)
      in if \<not> existent \<and> maxKeys (options s) \<noteq> 0 \<and> maxKeys (options s) > -1
            \<and> keys (stats s) \<ge> maxKeys (options s)
         then Inl ECACHEFULL
         else
           let livetime =
                 (if checkTTL (options s) then
                    (if ttl = Some 0 then 0
                     else if ttl \<noteq> None \<and> ttl \<noteq> Some 0 then now + the ttl * 1000
                     else if stdTTL (options s) = 0 then 0
                     else if stdTTL (options s) \<noteq> 0 then now + stdTTL (options s) * 1000
                     else 0)
                  else 0);
               s1 = (if enableStats (options s) then
                       (case fastProperty s keyStr of
                          Own d \<Rightarrow> s\<lparr> stats := (stats s)\<lparr> vsize := vsize (stats s)
                                             - getValLength (options s) (v d) \<rparr> \<rparr>
                        | Inherited \<Rightarrow> s\<lparr> stats := (stats s)\<lparr> vsize := vsize (stats s)
                                             - getValLength (options s) JUndefined \<rparr> \<rparr>
                        | Absent \<Rightarrow> s)
                     else s);
               s2 = fastStore keyStr \<lparr> t = livetime, v = val \<rparr> s1;
               s3 = (if enableStats (options s2) then
                       (let st1 = (stats s2)\<lparr> vsize := vsize (stats s2) + getValLength (options s2) val \<rparr>
                        in s2\<lparr> stats := (if \<not> existent
                                           then st1\<lparr> ksize := ksize st1 + int (length keyStr),
                                                     keys := keys st1 + 1 \<rparr>
                                           else st1) \<rparr>)
                     else s2)
           in Inr (True, s3))"

text \<open>
  \<^verbatim>\<open>mset\<close> counts the entries of the batch whose key is not in \<^verbatim>\<open>data\<close>, tests the
  capacity once, then stores every entry.
\<close>

fun Cache_mset_loop :: "Cache \<Rightarrow> int \<Rightarrow> (Key \<times> jsval \<times> int option) list \<Rightarrow> Cache" where
  "Cache_mset_loop s now [] = s"
| "Cache_mset_loop s now ((key, val, ttl) # es) =
     (let keyStr = toString key;
          existent = (getProperty (data s) keyStr \<noteq> Absent);
          livetime = (if ttl = Some 0 then 0
                      else if ttl \<noteq> None \<and> ttl \<noteq> Some 0 then now + the ttl * 1000
                      else if stdTTL (options s) = 0 then 0
                      else if stdTTL (options s) \<noteq> 0 then now + stdTTL (options s) * 1000
                      else 0);
          st1 = (case getProperty (data s) keyStr of
                   Own d \<Rightarrow> (stats s)\<lparr> vsize := vsize (stats s) - getValLength (options s) (v d) \<rparr>
                 | Inherited \<Rightarrow>
                     (stats s)\<lparr> vsize := vsize (stats s) - getValLength (options s) JUndefined \<rparr>
                 | Absent \<Rightarrow> stats s);
          data' = AList.update keyStr \<lparr> t = livetime, v = val \<rparr> (data s);
          st2 = st1\<lparr> vsize := vsize st1 + getValLength (options s) val \<rparr>;
          st3 = (if \<not> existent
                 then st2\<lparr> ksize := ksize st2 + int (length keyStr), keys := keys st2 + 1 \<rparr>
                 else st2)
      in Cache_mset_loop (s\<lparr> data := data', stats := st3 \<rparr>) now es)"

definition newKeysCount :: "Cache \<Rightarrow> (Key \<times> jsval \<times> int option) list \<Rightarrow> int" where
  "newKeysCount s keyValueSet =
     int (length (filter (\<lambda>(key, val, ttl). getProperty (data s) (toString key) = Absent)
                    keyValueSet))"

definition Cache_mset ::
  "Cache \<Rightarrow> int \<Rightarrow> (Key \<times> jsval \<times> int option) list \<Rightarrow> CacheError + (bool \<times> Cache)" where
  "Cache_mset s now keyValueSet =
     (if maxKeys (options s) \<noteq> 0 \<and> maxKeys (options s) > -1
         \<and> keys (stats s) + newKeysCount s keyValueSet > maxKeys (options s)
      then Inl ECACHEFULL
      else Inr (True, Cache_mset_loop s now keyValueSet))"

definition Cache_take :: "Cache \<Rightarrow> int \<Rightarrow> Key \<Rightarrow> jsval \<times> Cache" where
  "Cache_take s now key =
     (case Cache_get s now key of
        (val, s1) \<Rightarrow> if val \<noteq> JUndefined then (val, snd (Cache_del s1 [key])) else (val, s1))"

text \<open>
  \<^verbatim>\<open>_check(key, data)\<close> on a wrapper: an expired entry is deleted when
  \<^verbatim>\<open>deleteOnExpire\<close> is set. On an inherited member it returns true and changes
  nothing.
\<close>

definition Cache_check :: "Cache \<Rightarrow> int \<Rightarrow> string \<Rightarrow> WrappedValue \<Rightarrow> bool \<times> Cache" where
  "Cache_check s now key d =
     (if t d \<noteq> 0 \<and> t d < now then
        (if deleteOnExpire (options s) then (False, snd (Cache_del s [KStr key])) else (True, s))
      else (True, s))"

definition Cache_wrap :: "Options \<Rightarrow> int \<Rightarrow> jsval \<Rightarrow> int option \<Rightarrow> WrappedValue" where
  "Cache_wrap opts now val ttl =
     \<lparr> t = (if ttl = Some 0 then 0
             else if ttl \<noteq> None \<and> ttl \<noteq> Some 0 then now + the ttl * 1000
             else if stdTTL opts = 0 then stdTTL opts
             else now + stdTTL opts * 1000),
       v = val \<rparr>"

text \<open>\<^verbatim>\<open>!key\<close> holds of the empty string and of the number 0.\<close>

definition falsyKey :: "Key \<Rightarrow> bool" where
  "falsyKey key = (case key of KStr s \<Rightarrow> s = [] | KNum n \<Rightarrow> Rep_safe_integer n = 0)"

text \<open>
  \<^verbatim>\<open>ttl\<close> and \<^verbatim>\<open>getTtl\<close> test \<^verbatim>\<open>this.data[keyStr] && this._check(...)\<close> and then read
  \<^verbatim>\<open>this.data[keyStr]\<close> again; after a successful \<^verbatim>\<open>_check\<close> this is what was read
  before.
\<close>

definition Cache_ttl :: "Cache \<Rightarrow> int \<Rightarrow> Key \<Rightarrow> int option \<Rightarrow> bool \<times> Cache" where
  "Cache_ttl s now key ttl =
     (let ttlValue = (case ttl of Some x \<Rightarrow> x | None \<Rightarrow> stdTTL (options s)) in
      if falsyKey key then (False, s)
      else
        let keyStr = toString key in
        case getProperty (data s) keyStr of
          Absent \<Rightarrow> (False, s)
        | Inherited \<Rightarrow>
            (if ttlValue \<noteq> 0 \<and> ttlValue \<ge> 0
             then (True, s\<lparr> data := AList.update keyStr
                     (Cache_wrap (options s) now JUndefined (Some ttlValue)) (data s) \<rparr>)
             else (True, snd (Cache_del s [key])))
        | Own d \<Rightarrow>
            (case Cache_check s now keyStr d of
               (True, s1) \<Rightarrow>
                 (if ttlValue \<noteq> 0 \<and> ttlValue \<ge> 0
                  then (True, s1\<lparr> data := AList.update keyStr
                          (Cache_wrap (options s1) now (v d) (Some ttlValue)) (data s1) \<rparr>)
                  else (True, snd (Cache_del s1 [key])))
             | (False, s1) \<Rightarrow> (False, s1)))"

definition Cache_getTtl :: "Cache \<Rightarrow> int \<Rightarrow> Key \<Rightarrow> int option \<times> Cache" where
  "Cache_getTtl s now key =
     (if falsyKey key then (None, s)
      else
        let keyStr = toString key in
        case getProperty (data s) keyStr of
          Absent \<Rightarrow> (None, s)
        | Inherited \<Rightarrow> (None, s)
        | Own d \<Rightarrow>
            (case Cache_check s now keyStr d of
               (True, s1) \<Rightarrow> (Some (t d), s1)
             | (False, s1) \<Rightarrow> (None, s1)))"


text \<open>
  \<^verbatim>\<open>has\<close>: for an inherited member \<^verbatim>\<open>data.t === 0 || data.t >= Date.now()\<close> is false.
\<close>

definition Cache_has :: "Cache \<Rightarrow> int \<Rightarrow> Key \<Rightarrow> bool" where
  "Cache_has s now key =
     (case fastProperty s (toString key) of
        Own d \<Rightarrow> (if \<not> checkTTL (options s) then True else t d = 0 \<or> t d \<ge> now)
      | Inherited \<Rightarrow> \<not> checkTTL (options s)
      | Absent \<Rightarrow> False)"

text \<open>The housekeeping pass \<^verbatim>\<open>_checkData\<close> over the own entries of \<^verbatim>\<open>data\<close>.\<close>

fun Cache_checkData_loop :: "Cache \<Rightarrow> int \<Rightarrow> (string \<times> WrappedValue) list \<Rightarrow> Cache" where
  "Cache_checkData_loop s now [] = s"
| "Cache_checkData_loop s now ((key, d) # es) =
     Cache_checkData_loop (snd (Cache_check s now key d)) now es"

definition Cache_checkData :: "Cache \<Rightarrow> int \<Rightarrow> Cache" where
  "Cache_checkData s now = Cache_checkData_loop s now (ownEntries (data s))"

section \<open>Specification-level notions and scenarios\<close>

text \<open>The options the constructor of the MemoryDriver fills in when none are given.\<close>

definition MemoryDriver_defaults :: MemoryDriverOptions where
  "MemoryDriver_defaults =
     \<lparr> stdTTL = 0, checkPeriod = 600, useClones = True, deleteOnExpire = True, maxKeys = -1,
       prefix = [] \<rparr>"

text \<open>
  The invariant of the statistics in the words of the specification: the key count is
  the number of entries, no counter is negative, and the two size counters are the
  sums of the per-entry estimates of key and value.
\<close>

definition MemoryDriver_stats_invariant :: "MemoryDriver \<Rightarrow> bool" where
  "MemoryDriver_stats_invariant s =
     (keys (stats s) = int (length (ownEntries (data s)))
      \<and> 0 \<le> hits (stats s) \<and> 0 \<le> misses (stats s) \<and> 0 \<le> keys (stats s)
      \<and> 0 \<le> ksize (stats s) \<and> 0 \<le> vsize (stats s)
      \<and> ksize (stats s)
          = sum_list (map (\<lambda>(fullKey, d). int (length (stripPrefix (options s) fullKey)))
                        (ownEntries (data s)))
      \<and> vsize (stats s)
          = sum_list (map (\<lambda>(fullKey, d). getValueSize (v d)) (ownEntries (data s))))"

text \<open>
  The scenario of the least-recently-used eviction: three insertions, a read of the
  first key, a fourth insertion, each at its own time.
\<close>

definition LRU_scenario ::
  "MemoryDriverOptions \<Rightarrow> string \<Rightarrow> string \<Rightarrow> string \<Rightarrow> string
     \<Rightarrow> jsval \<Rightarrow> jsval \<Rightarrow> jsval \<Rightarrow> jsval \<Rightarrow> int option
     \<Rightarrow> int \<Rightarrow> int \<Rightarrow> int \<Rightarrow> int \<Rightarrow> int \<Rightarrow> MemoryLRUDriver" where
  "LRU_scenario opts a b c d va vb vc vd ttl n1 n2 n3 n4 n5 =
     (let s1 = snd (MemoryLRUDriver_set (MemoryLRUDriver_new opts) n1 (KStr a) va ttl);
          s2 = snd (MemoryLRUDriver_set s1 n2 (KStr b) vb ttl);
          s3 = snd (MemoryLRUDriver_set s2 n3 (KStr c) vc ttl);
          s4 = snd (MemoryLRUDriver_get s3 n4 (KStr a))
      in snd (MemoryLRUDriver_set s4 n5 (KStr d) vd ttl))"

text \<open>A store filled by one \<^verbatim>\<open>set\<close> at time 0, for the concrete runs below.\<close>

definition MemoryDriver_after_set ::
  "MemoryDriverOptions \<Rightarrow> string \<Rightarrow> jsval \<Rightarrow> int option \<Rightarrow> MemoryDriver" where
  "MemoryDriver_after_set opts k x ttl =
     (case MemoryDriver_set (MemoryDriver_new opts) 0 (KStr k) x ttl of
        Inr (_, s) \<Rightarrow> s
      | Inl _ \<Rightarrow> MemoryDriver_new opts)"

definition Cache_after_set :: "Options \<Rightarrow> string \<Rightarrow> jsval \<Rightarrow> int option \<Rightarrow> Cache" where
  "Cache_after_set opts k x ttl =
     (case Cache_set (Cache_new opts) 0 (KStr k) x ttl of
        Inr (_, s) \<Rightarrow> s
      | Inl _ \<Rightarrow> Cache_new opts)"

text \<open>The keys filed under a tag; a tag without a set has none.\<close>

definition tagSet :: "(string \<times> string list) list \<Rightarrow> string \<Rightarrow> string set" where
  "tagSet tgs tg = (case map_of tgs tg of None \<Rightarrow> {} | Some keySet \<Rightarrow> set keySet)"

text \<open>
  A read of the name \<open>k\<close> in the plain object \<open>obj\<close> can find an own property only:
  \<open>k\<close> is not the name of a member of \<^verbatim>\<open>Object.prototype\<close>, and the prototype of
  \<open>obj\<close> has not been replaced through \<^verbatim>\<open>__proto__\<close>.
\<close>

definition ownLookup :: "(string \<times> WrappedValue) list \<Rightarrow> string \<Rightarrow> bool" where
  "ownLookup obj k = (k \<notin> set ObjectPrototype \<and> map_of obj ''__proto__'' = None)"

text \<open>
  The specification of \<^verbatim>\<open>take\<close>: \<^verbatim>\<open>get\<close> followed by \<^verbatim>\<open>del\<close> of the same key, as one
  unit, returning what \<^verbatim>\<open>get\<close> returned.
\<close>

definition Cache_get_then_del :: "Cache \<Rightarrow> int \<Rightarrow> Key \<Rightarrow> jsval \<times> Cache" where
  "Cache_get_then_del s now key =
     (case Cache_get s now key of (val, s1) \<Rightarrow> (val, snd (Cache_del s1 [key])))"

text \<open>The atom that one character of a glob pattern stands for.\<close>

definition globAtom :: "char \<Rightarrow> RegExpAtom" where
  "globAtom c = (if c = CHR ''*'' then DotStar else if c = CHR ''?'' then Dot else Literal c)"

text \<open>The characters a wildcard of the built expression can stand for.\<close>

definition notLineTerminator :: "char \<Rightarrow> bool" where
  "notLineTerminator c = (\<not> isLineTerminator c)"

definition anyChar :: "char \<Rightarrow> bool" where
  "anyChar c = True"

text \<open>What the three replacements of \<^verbatim>\<open>patternToRegex\<close> make of a single character.\<close>

definition replaced_char :: "char \<Rightarrow> string" where
  "replaced_char c = replace_question (replace_star (replace_escaped [c]))"




section \<open>Properties\<close>

subsection \<open>Basic facts\<close>

lemma getFullKey_inj: "getFullKey opts (KStr a) = getFullKey opts (KStr b) \<longleftrightarrow> a = b"
  by (simp add: getFullKey_def toString_def)

lemma stripPrefix_getFullKey: "stripPrefix opts (getFullKey opts (KStr a)) = a"
  by (simp add: getFullKey_def toString_def stripPrefix_def startsWith_def)

lemma getProperty_Own: "map_of obj k = Some d \<Longrightarrow> getProperty obj k = Own d"
  by (simp add: getProperty_def)

lemma getProperty_ownLookup:
  "ownLookup obj k \<Longrightarrow>
   getProperty obj k = (case map_of obj k of Some d \<Rightarrow> Own d | None \<Rightarrow> Absent)"
  by (simp add: getProperty_def ownLookup_def split: option.splits)

lemma MemoryDriver_after_set_simp:
  "maxKeys opts = -1 \<Longrightarrow> prefix opts = [] \<Longrightarrow> k \<notin> set ObjectPrototype \<Longrightarrow>
   MemoryDriver_after_set opts k x ttl =
     \<lparr> data = [(k, wrap opts 0 x ttl)],
       stats = \<lparr> hits = 0, misses = 0, keys = 1, ksize = int (length k), vsize = getValueSize x \<rparr>,
       options = opts, tags = [] \<rparr>"
  by (simp add: MemoryDriver_after_set_def MemoryDriver_set_def MemoryDriver_new_def
      getFullKey_def toString_def zero_stats_def getKeySize_def getProperty_def)

lemma Cache_after_set_simp:
  "maxKeys opts = -1 \<Longrightarrow> \<not> maxPerformance opts \<Longrightarrow> enableStats opts
     \<Longrightarrow> checkPeriod opts \<noteq> 0 \<Longrightarrow> stdTTL opts = 0 \<Longrightarrow> k \<notin> set ObjectPrototype \<Longrightarrow>
   Cache_after_set opts k x ttl =
     \<lparr> data = [(k, \<lparr> t = (if ttl = None \<or> ttl = Some 0 then 0 else the ttl * 1000), v = x \<rparr>)],
       stats = \<lparr> hits = 0, misses = 0, keys = 1, ksize = int (length k),
                 vsize = getValLength opts x \<rparr>,
       options = opts, dataMap = None \<rparr>"
  by (simp add: Cache_after_set_def Cache_set_def Cache_new_def
      fastProperty_def getProperty_def fastStore_def checkTTL_def toString_def zero_stats_def)

lemma Cache_del_present:
  "map_of (data s) (toString key) = Some d \<Longrightarrow>
   Cache_del s [key] =
     (1, s\<lparr> stats := (stats s)\<lparr> vsize := vsize (stats s) - getValLength (options s) (v d),
                                ksize := ksize (stats s) - int (length (toString key)),
                                keys := keys (stats s) - 1 \<rparr>,
            data := deleteProperty (toString key) (data s) \<rparr>)"
  by (simp add: Cache_del_def Let_def getProperty_Own)

subsection \<open>Capacity of the MemoryDriver\<close>

text \<open>
  Claim C2, on the code: a MemoryDriver bounded to one key and holding the key \<open>a\<close> is
  at its maximum key count. A \<^verbatim>\<open>set\<close> on that same, existing key is rejected with the
  full-cache error, because \<^verbatim>\<open>MemoryDriver.set\<close> tests the capacity before it looks
  the key up.
\<close>

theorem MemoryDriver_set_existing_key_at_capacity:
  "MemoryDriver_set (MemoryDriver_new (MemoryDriver_defaults\<lparr> maxKeys := 1 \<rparr>)) 0
       (KStr ''a'') (JNum 1) None
     = Inr (True, \<lparr> data = [(''a'', \<lparr> t = 0, v = JNum 1 \<rparr>)],
                    stats = \<lparr> hits = 0, misses = 0, keys = 1, ksize = 1, vsize = 8 \<rparr>,
                    options = MemoryDriver_defaults\<lparr> maxKeys := 1 \<rparr>, tags = [] \<rparr>)
   \<and> MemoryDriver_set \<lparr> data = [(''a'', \<lparr> t = 0, v = JNum 1 \<rparr>)],
                    stats = \<lparr> hits = 0, misses = 0, keys = 1, ksize = 1, vsize = 8 \<rparr>,
                    options = MemoryDriver_defaults\<lparr> maxKeys := 1 \<rparr>, tags = [] \<rparr> 1
       (KStr ''a'') (JNum 2) None
     = Inl ECACHEFULL"
  by (simp add: MemoryDriver_set_def MemoryDriver_new_def MemoryDriver_defaults_def
      getFullKey_def toString_def zero_stats_def getKeySize_def getValueSize_def wrap_def
      getProperty_def ObjectPrototype_def)

text \<open>
  The general shape of the defect, and the same two calls on the legacy engine, which
  tests the capacity for new keys only and replaces the value.
\<close>

lemma MemoryDriver_set_full:
  "maxKeys (options s) > -1 \<Longrightarrow> keys (stats s) \<ge> maxKeys (options s)
     \<Longrightarrow> MemoryDriver_set s now key val ttl = Inl ECACHEFULL"
  by (simp add: MemoryDriver_set_def)

lemma Cache_set_existing_key_at_capacity:
  "Cache_set (Cache_new (DEFAULT_OPTIONS\<lparr> maxKeys := 1 \<rparr>)) 0 (KStr ''a'') (JNum 1) None
     = Inr (True, \<lparr> data = [(''a'', \<lparr> t = 0, v = JNum 1 \<rparr>)],
                    stats = \<lparr> hits = 0, misses = 0, keys = 1, ksize = 1, vsize = 8 \<rparr>,
                    options = DEFAULT_OPTIONS\<lparr> maxKeys := 1 \<rparr>, dataMap = None \<rparr>)
   \<and> Cache_set \<lparr> data = [(''a'', \<lparr> t = 0, v = JNum 1 \<rparr>)],
                    stats = \<lparr> hits = 0, misses = 0, keys = 1, ksize = 1, vsize = 8 \<rparr>,
                    options = DEFAULT_OPTIONS\<lparr> maxKeys := 1 \<rparr>, dataMap = None \<rparr> 1
       (KStr ''a'') (JNum 2) None
     = Inr (True, \<lparr> data = [(''a'', \<lparr> t = 0, v = JNum 2 \<rparr>)],
                    stats = \<lparr> hits = 0, misses = 0, keys = 1, ksize = 1, vsize = 8 \<rparr>,
                    options = DEFAULT_OPTIONS\<lparr> maxKeys := 1 \<rparr>, dataMap = None \<rparr>)"
  by (simp add: Cache_set_def Cache_new_def DEFAULT_OPTIONS_def fastProperty_def fastStore_def
      getProperty_def ObjectPrototype_def checkTTL_def toString_def zero_stats_def
      getValLength_def Let_def)

text \<open>
  Claim C3, on the code: a MemoryDriver bounded to two keys rejects a batch of two new
  keys offered to the empty store (projected total 2, not above the maximum), and
  rejects a batch that only replaces the one key it holds (no new key at all):
  \<^verbatim>\<open>MemoryDriver.mset\<close> adds the length of the batch, not the number of new keys, and
  compares with \<^verbatim>\<open>>=\<close>.
\<close>

theorem MemoryDriver_mset_rejects_fitting_batch:
  "MemoryDriver_mset (MemoryDriver_new (MemoryDriver_defaults\<lparr> maxKeys := 2 \<rparr>)) 0
       [(KStr ''a'', JNum 1, None), (KStr ''b'', JNum 2, None)]
     = Inl ECACHEFULL
   \<and> MemoryDriver_mset \<lparr> data = [(''a'', \<lparr> t = 0, v = JNum 1 \<rparr>)],
                    stats = \<lparr> hits = 0, misses = 0, keys = 1, ksize = 1, vsize = 8 \<rparr>,
                    options = MemoryDriver_defaults\<lparr> maxKeys := 2 \<rparr>, tags = [] \<rparr> 0
       [(KStr ''a'', JNum 5, None)]
     = Inl ECACHEFULL"
  by (simp add: MemoryDriver_mset_def MemoryDriver_new_def MemoryDriver_defaults_def zero_stats_def)

text \<open>
  The legacy engine tests the number of new keys of the batch with \<^verbatim>\<open>>\<close>, and accepts
  the same two batches.
\<close>

lemma Cache_mset_accepts_fitting_batch:
  "Cache_mset (Cache_new (DEFAULT_OPTIONS\<lparr> maxKeys := 2 \<rparr>)) 0
       [(KStr ''a'', JNum 1, None), (KStr ''b'', JNum 2, None)]
     = Inr (True, \<lparr> data = [(''a'', \<lparr> t = 0, v = JNum 1 \<rparr>), (''b'', \<lparr> t = 0, v = JNum 2 \<rparr>)],
                    stats = \<lparr> hits = 0, misses = 0, keys = 2, ksize = 2, vsize = 16 \<rparr>,
                    options = DEFAULT_OPTIONS\<lparr> maxKeys := 2 \<rparr>, dataMap = None \<rparr>)
   \<and> Cache_mset \<lparr> data = [(''a'', \<lparr> t = 0, v = JNum 1 \<rparr>)],
                    stats = \<lparr> hits = 0, misses = 0, keys = 1, ksize = 1, vsize = 8 \<rparr>,
                    options = DEFAULT_OPTIONS\<lparr> maxKeys := 2 \<rparr>, dataMap = None \<rparr> 0
       [(KStr ''a'', JNum 5, None)]
     = Inr (True, \<lparr> data = [(''a'', \<lparr> t = 0, v = JNum 5 \<rparr>)],
                    stats = \<lparr> hits = 0, misses = 0, keys = 1, ksize = 1, vsize = 8 \<rparr>,
                    options = DEFAULT_OPTIONS\<lparr> maxKeys := 2 \<rparr>, dataMap = None \<rparr>)"
  by (simp add: Cache_mset_def Cache_new_def DEFAULT_OPTIONS_def newKeysCount_def
      getProperty_def ObjectPrototype_def toString_def zero_stats_def getValLength_def Let_def)

subsection \<open>Statistics of the MemoryDriver\<close>

text \<open>
  Claim C4, on the code: with the default options, store the key \<open>a\<close> with the value
  \<open>xyz\<close> and a TTL of one second at time 0, and read it at time 2000. After the
  \<^verbatim>\<open>set\<close> the statistics of the MemoryDriver satisfy the invariant. The read finds
  the entry expired and removes it through \<^verbatim>\<open>checkExpiry\<close>, which decrements the key
  count only: the store is empty while \<^verbatim>\<open>ksize\<close> is still 1 and \<^verbatim>\<open>vsize\<close> still 3,
  so the invariant fails. The MemoryLRUDriver ends in the same statistics. In the
  legacy Cache with \<^verbatim>\<open>deleteOnExpire = false\<close>, each \<^verbatim>\<open>get\<close> of the expired key
  decrements the three counters and removes nothing: after two reads the entry is
  still stored and the counters are negative.
\<close>

theorem MemoryDriver_lazy_expiry_keeps_sizes:
  "MemoryDriver_stats_invariant
       (MemoryDriver_after_set MemoryDriver_defaults ''a'' (JStr ''xyz'') (Some 1))
   \<and> MemoryDriver_get
         (MemoryDriver_after_set MemoryDriver_defaults ''a'' (JStr ''xyz'') (Some 1)) 2000 (KStr ''a'')
       = (JUndefined,
          \<lparr> data = [], stats = \<lparr> hits = 0, misses = 1, keys = 0, ksize = 1, vsize = 3 \<rparr>,
            options = MemoryDriver_defaults, tags = [] \<rparr>)
   \<and> \<not> MemoryDriver_stats_invariant
         (snd (MemoryDriver_get
            (MemoryDriver_after_set MemoryDriver_defaults ''a'' (JStr ''xyz'') (Some 1)) 2000
            (KStr ''a'')))
   \<and> MemoryLRUDriver_get
         (snd (MemoryLRUDriver_set (MemoryLRUDriver_new MemoryDriver_defaults) 0
                 (KStr ''a'') (JStr ''xyz'') (Some 1))) 2000 (KStr ''a'')
       = (JUndefined,
          \<lparr> data = [], stats = \<lparr> hits = 0, misses = 1, keys = 0, ksize = 1, vsize = 3 \<rparr>,
            options = MemoryDriver_defaults, tags = [], head = None, tail = None \<rparr>)
   \<and> stats (snd (Cache_get (snd (Cache_get
         (Cache_after_set (DEFAULT_OPTIONS\<lparr> deleteOnExpire := False \<rparr>) ''a'' (JStr ''xyz'') (Some 1))
         2000 (KStr ''a''))) 2000 (KStr ''a'')))
       = \<lparr> hits = 0, misses = 2, keys = - 1, ksize = - 1, vsize = - 3 \<rparr>
   \<and> data (snd (Cache_get (snd (Cache_get
         (Cache_after_set (DEFAULT_OPTIONS\<lparr> deleteOnExpire := False \<rparr>) ''a'' (JStr ''xyz'') (Some 1))
         2000 (KStr ''a''))) 2000 (KStr ''a'')))
       = [(''a'', \<lparr> t = 1000, v = JStr ''xyz'' \<rparr>)]"
  by (simp add: MemoryDriver_after_set_simp MemoryDriver_stats_invariant_def MemoryDriver_get_def
      MemoryDriver_checkExpiry_def wrap_def getValueSize_def getFullKey_def toString_def
      stripPrefix_def MemoryDriver_defaults_def
      Cache_after_set_simp DEFAULT_OPTIONS_def Cache_get_def fastProperty_def checkTTL_def
      getValLength_def MemoryLRUDriver_new_def MemoryLRUDriver_set_def MemoryLRUDriver_get_def
      MemoryLRUDriver_checkExpiry_def unwrap_def addToHead_def removeNode_def moveToHead_def
      modifyNode_def evictLRU_def removeTail_def Let_def zero_stats_def getKeySize_def
      getProperty_def deleteProperty_def ownEntries_def ObjectPrototype_def)

subsection \<open>Eviction of the least recently used key\<close>

lemmas LRU_defs = MemoryLRUDriver_set_def MemoryLRUDriver_get_def
  MemoryLRUDriver_checkExpiry_def unwrap_def addToHead_def removeNode_def moveToHead_def
  modifyNode_def evictLRU_def removeTail_def Let_def

text \<open>
  Claim C5: in a MemoryLRUDriver of capacity 3, whatever the prefix, the values and
  the times, after \<^verbatim>\<open>set(a)\<close>, \<^verbatim>\<open>set(b)\<close>, \<^verbatim>\<open>set(c)\<close>, \<^verbatim>\<open>get(a)\<close>, \<^verbatim>\<open>set(d)\<close> on
  four different keys with infinite TTL (an explicit TTL of 0, or none under a standard
  TTL of 0), \<^verbatim>\<open>keys()\<close> is \<open>a\<close>, \<open>c\<close>, \<open>d\<close> and \<^verbatim>\<open>has(b)\<close> is false: the insertion at
  capacity evicted the tail \<open>b\<close>, and the read had moved \<open>a\<close> away from the tail.
\<close>

theorem LRU_scenario_evicts_least_recently_used:
  assumes dist: "distinct [a, b, c, d]" and cap: "maxKeys opts = 3"
    and inf: "ttl = Some 0 \<or> (ttl = None \<and> stdTTL opts = 0)"
  shows "set (fst (MemoryLRUDriver_keys
                     (LRU_scenario opts a b c d va vb vc vd ttl n1 n2 n3 n4 n5) n6 None))
           = {a, c, d}
       \<and> \<not> fst (MemoryLRUDriver_has
                   (LRU_scenario opts a b c d va vb vc vd ttl n1 n2 n3 n4 n5) n7 (KStr b))"
proof -
  define fa where "fa = getFullKey opts (KStr a)"
  define fb where "fb = getFullKey opts (KStr b)"
  define fc where "fc = getFullKey opts (KStr c)"
  define fd where "fd = getFullKey opts (KStr d)"
  define node where "node = (\<lambda>k x p n.
    \<lparr> node_key = k, node_value = \<lparr> t = 0, v = x \<rparr>, node_prev = p, node_next = n \<rparr>)"
  define s1 where "s1 = snd (MemoryLRUDriver_set (MemoryLRUDriver_new opts) n1 (KStr a) va ttl)"
  define s2 where "s2 = snd (MemoryLRUDriver_set s1 n2 (KStr b) vb ttl)"
  define s3 where "s3 = snd (MemoryLRUDriver_set s2 n3 (KStr c) vc ttl)"
  define s4 where "s4 = snd (MemoryLRUDriver_get s3 n4 (KStr a))"
  define s5 where "s5 = snd (MemoryLRUDriver_set s4 n5 (KStr d) vd ttl)"
  have sc: "LRU_scenario opts a b c d va vb vc vd ttl n1 n2 n3 n4 n5 = s5"
    by (simp add: LRU_scenario_def s1_def s2_def s3_def s4_def s5_def Let_def)
  have w: "wrap opts n x ttl = \<lparr> t = 0, v = x \<rparr>" for n x
    using inf by (auto simp: wrap_def)
  have ne: "fa \<noteq> fb" "fa \<noteq> fc" "fa \<noteq> fd" "fb \<noteq> fc" "fb \<noteq> fd" "fc \<noteq> fd"
           "fb \<noteq> fa" "fc \<noteq> fa" "fd \<noteq> fa" "fc \<noteq> fb" "fd \<noteq> fb" "fd \<noteq> fc"
    using dist by (auto simp: fa_def fb_def fc_def fd_def getFullKey_inj)
  have 1: "data s1 = [(fa, node fa va None None)] \<and> head s1 = Some fa \<and> tail s1 = Some fa
           \<and> keys (stats s1) = 1 \<and> options s1 = opts"
    unfolding s1_def
    by (simp add: LRU_defs MemoryLRUDriver_new_def zero_stats_def node_def cap w
        fa_def[symmetric])
  have 2: "data s2 = [(fa, node fa va (Some fb) None), (fb, node fb vb None (Some fa))]
           \<and> head s2 = Some fb \<and> tail s2 = Some fa \<and> keys (stats s2) = 2 \<and> options s2 = opts"
    unfolding s2_def using 1 ne
    by (simp add: LRU_defs node_def cap w fb_def[symmetric])
  have 3: "data s3 = [(fa, node fa va (Some fb) None), (fb, node fb vb (Some fc) (Some fa)),
                      (fc, node fc vc None (Some fb))]
           \<and> head s3 = Some fc \<and> tail s3 = Some fa \<and> keys (stats s3) = 3 \<and> options s3 = opts"
    unfolding s3_def using 2 ne
    by (simp add: LRU_defs node_def cap w fc_def[symmetric])
  have 4: "data s4 = [(fa, node fa va None (Some fc)), (fb, node fb vb (Some fc) None),
                      (fc, node fc vc (Some fa) (Some fb))]
           \<and> head s4 = Some fa \<and> tail s4 = Some fb \<and> keys (stats s4) = 3 \<and> options s4 = opts"
    unfolding s4_def using 3 ne
    by (simp add: LRU_defs node_def cap fa_def[symmetric])
  have 5: "data s5 = [(fa, node fa va (Some fd) (Some fc)), (fc, node fc vc (Some fa) None),
                      (fd, node fd vd None (Some fa))]
           \<and> head s5 = Some fd \<and> tail s5 = Some fc \<and> keys (stats s5) = 3 \<and> options s5 = opts"
    unfolding s5_def using 4 ne
    by (simp add: LRU_defs node_def cap w fd_def[symmetric])
  have k: "fst (MemoryLRUDriver_keys s5 n6 None) = [a, c, d]"
    using 5 by (simp add: MemoryLRUDriver_keys_def MemoryLRUDriver_checkExpiry_def node_def
        fa_def fc_def fd_def stripPrefix_getFullKey)
  have h: "\<not> fst (MemoryLRUDriver_has s5 n7 (KStr b))"
    using 5 ne by (simp add: MemoryLRUDriver_has_def fb_def[symmetric])
  show ?thesis using k h unfolding sc by auto
qed

theorem LRU_scenario_evicts_least_recently_used_witness:
  "distinct [''a'', ''b'', ''c'', ''d'']
   \<and> maxKeys (MemoryDriver_defaults\<lparr> maxKeys := 3 \<rparr>) = 3
   \<and> set (fst (MemoryLRUDriver_keys
                 (LRU_scenario (MemoryDriver_defaults\<lparr> maxKeys := 3 \<rparr>) ''a'' ''b'' ''c'' ''d''
                    (JNum 1) (JNum 2) (JNum 3) (JNum 4) (Some 0) 0 0 0 0 0) 0 None))
       = {''a'', ''c'', ''d''}
   \<and> \<not> fst (MemoryLRUDriver_has
               (LRU_scenario (MemoryDriver_defaults\<lparr> maxKeys := 3 \<rparr>) ''a'' ''b'' ''c'' ''d''
                  (JNum 1) (JNum 2) (JNum 3) (JNum 4) (Some 0) 0 0 0 0 0) 0 (KStr ''b''))"
  using LRU_scenario_evicts_least_recently_used
          [of "''a''" "''b''" "''c''" "''d''" "MemoryDriver_defaults\<lparr> maxKeys := 3 \<rparr>" "Some 0"
              "JNum 1" "JNum 2" "JNum 3" "JNum 4" 0 0 0 0 0 0 0]
  by (simp add: MemoryDriver_defaults_def)

subsection \<open>Changing the TTL\<close>

text \<open>
  Claim C8, on the code: in the legacy Cache with its default options, store the key
  \<open>a\<close> and call \<^verbatim>\<open>ttl('a', 0)\<close>. The call returns true and the key is deleted: the
  test \<^verbatim>\<open>ttlValue && ttlValue >= 0\<close> sends a TTL of 0 to the branch that deletes,
  where the method's own documentation says that a TTL of 0 means an infinite lifetime.
  In the MemoryDriver, \<^verbatim>\<open>ttl('a', -1)\<close> returns true and keeps the entry with an
  expiry in the past; nothing is removed and no counter changes.
\<close>

theorem Cache_ttl_zero_deletes:
  "Cache_ttl (Cache_after_set DEFAULT_OPTIONS ''a'' (JStr ''v'') None) 5000 (KStr ''a'') (Some 0)
     = (True, \<lparr> data = [], stats = \<lparr> hits = 0, misses = 0, keys = 0, ksize = 0, vsize = 0 \<rparr>,
               options = DEFAULT_OPTIONS, dataMap = None \<rparr>)
   \<and> MemoryDriver_ttl (MemoryDriver_after_set MemoryDriver_defaults ''a'' (JStr ''v'') None) 5000
        (KStr ''a'') (- 1)
     = (True, \<lparr> data = [(''a'', \<lparr> t = 4000, v = JStr ''v'' \<rparr>)],
               stats = \<lparr> hits = 0, misses = 0, keys = 1, ksize = 1, vsize = 1 \<rparr>,
               options = MemoryDriver_defaults, tags = [] \<rparr>)"
  by (simp add: Cache_after_set_simp MemoryDriver_after_set_simp Cache_ttl_def falsyKey_def
      toString_def Cache_check_def Cache_del_def getValLength_def
      MemoryDriver_ttl_def MemoryDriver_checkExpiry_def getFullKey_def wrap_def getValueSize_def
      MemoryDriver_defaults_def DEFAULT_OPTIONS_def Let_def
      getProperty_def deleteProperty_def ObjectPrototype_def)

text \<open>What the legacy Cache does for a negative and for a positive TTL on a live entry.\<close>

lemma Cache_ttl_negative:
  assumes "\<not> falsyKey key" "map_of (data s) (toString key) = Some d" "t d = 0 \<or> t d \<ge> now" "x < 0"
  shows "Cache_ttl s now key (Some x) = (True, snd (Cache_del s [key]))"
    and "toString key \<noteq> ''__proto__''
           \<Longrightarrow> map_of (data (snd (Cache_ttl s now key (Some x)))) (toString key) = None"
  using assms
  by (auto simp: Cache_ttl_def Cache_check_def Cache_del_present getProperty_Own
        deleteProperty_def delete_conv')

lemma Cache_ttl_positive:
  assumes "\<not> falsyKey key" "map_of (data s) (toString key) = Some d" "t d = 0 \<or> t d \<ge> now" "x > 0"
  shows "Cache_ttl s now key (Some x)
           = (True, s\<lparr> data := AList.update (toString key) \<lparr> t = now + x * 1000, v = v d \<rparr> (data s) \<rparr>)"
  using assms by (auto simp: Cache_ttl_def Cache_check_def Cache_wrap_def getProperty_Own)

subsection \<open>Tagging\<close>

lemma tagSet_addToTag:
  "tagSet (addToTag fullKey tgs tg) tg' = tagSet tgs tg' \<union> (if tg' = tg then {fullKey} else {})"
  by (auto simp: tagSet_def addToTag_def Let_def update_conv' split: option.splits if_splits)

lemma tagSet_foldl_addToTag:
  "tagSet (foldl (addToTag fullKey) tgs ts) tg'
     = tagSet tgs tg' \<union> (if tg' \<in> set ts then {fullKey} else {})"
  by (induction ts arbitrary: tgs) (auto simp: tagSet_addToTag)

lemma dom_addToTag: "fst ` set (addToTag fullKey tgs tg) = insert tg (fst ` set tgs)"
  by (auto simp: addToTag_def Let_def dom_update)

lemma dom_foldl_addToTag:
  "fst ` set (foldl (addToTag fullKey) tgs ts) = fst ` set tgs \<union> set ts"
  by (induction ts arbitrary: tgs) (auto simp: dom_addToTag)

text \<open>
  Claim C9 as stated fails: \<^verbatim>\<open>tag\<close> never reads the clock. The key \<open>a\<close>, stored at
  time 0 with a TTL of one second, has passed its expiry at time 2000 and is still in
  the container; tagging it returns true.
\<close>

theorem tag_expired_counterexample:
  "map_of (data (MemoryDriver_after_set MemoryDriver_defaults ''a'' (JStr ''v'') (Some 1))) ''a''
     = Some \<lparr> t = 1000, v = JStr ''v'' \<rparr>
   \<and> (1000 :: int) \<noteq> 0 \<and> (1000 :: int) < 2000
   \<and> fst (MemoryDriver_tag (MemoryDriver_after_set MemoryDriver_defaults ''a'' (JStr ''v'') (Some 1))
            (KStr ''a'') [''t''])"
  by (simp add: MemoryDriver_after_set_simp MemoryDriver_defaults_def wrap_def MemoryDriver_tag_def
      getFullKey_def toString_def Let_def getProperty_def ObjectPrototype_def)

text \<open>
  Claim C9, amended: \<^verbatim>\<open>tag(key, tags)\<close> returns false exactly when the container
  holds no entry under the key, whether or not a held entry has passed its expiry, and
  then changes nothing. Otherwise it returns true, every named tag gains the key, no
  other tag changes, a set is created for each named tag that had none, and the entries
  and statistics stay as they were. This holds in the MemoryLRUDriver for every key,
  and in the MemoryDriver for every key whose read can find an own property only
  (\<open>ownLookup\<close>: the full key is not the name of a member of \<^verbatim>\<open>Object.prototype\<close>,
  and the prototype of the container has not been replaced); what \<^verbatim>\<open>tag\<close> does for
  the other keys of the MemoryDriver is not stated.
\<close>

theorem tag_tests_physical_presence:
  "(ownLookup (data s) (getFullKey (options s) key) \<longrightarrow>
      fst (MemoryDriver_tag s key tgs) = (map_of (data s) (getFullKey (options s) key) \<noteq> None)
      \<and> (map_of (data s) (getFullKey (options s) key) = None
           \<longrightarrow> snd (MemoryDriver_tag s key tgs) = s)
      \<and> (map_of (data s) (getFullKey (options s) key) \<noteq> None \<longrightarrow>
           (\<forall>tg. tagSet (tags (snd (MemoryDriver_tag s key tgs))) tg
                  = tagSet (tags s) tg
                    \<union> (if tg \<in> set tgs then {getFullKey (options s) key} else {}))
           \<and> fst ` set (tags (snd (MemoryDriver_tag s key tgs))) = fst ` set (tags s) \<union> set tgs
           \<and> data (snd (MemoryDriver_tag s key tgs)) = data s
           \<and> stats (snd (MemoryDriver_tag s key tgs)) = stats s))
   \<and> fst (MemoryLRUDriver_tag l key tgs) = (map_of (data l) (getFullKey (options l) key) \<noteq> None)
   \<and> (map_of (data l) (getFullKey (options l) key) = None \<longrightarrow> snd (MemoryLRUDriver_tag l key tgs) = l)
   \<and> (map_of (data l) (getFullKey (options l) key) \<noteq> None \<longrightarrow>
        (\<forall>tg. tagSet (tags (snd (MemoryLRUDriver_tag l key tgs))) tg
               = tagSet (tags l) tg \<union> (if tg \<in> set tgs then {getFullKey (options l) key} else {}))
        \<and> fst ` set (tags (snd (MemoryLRUDriver_tag l key tgs))) = fst ` set (tags l) \<union> set tgs
        \<and> data (snd (MemoryLRUDriver_tag l key tgs)) = data l
        \<and> stats (snd (MemoryLRUDriver_tag l key tgs)) = stats l)"
proof -
  have m: "getProperty (data s) (getFullKey (options s) key)
             = (case map_of (data s) (getFullKey (options s) key) of
                  Some d \<Rightarrow> Own d | None \<Rightarrow> Absent)"
    if "ownLookup (data s) (getFullKey (options s) key)"
    using that by (rule getProperty_ownLookup)
  show ?thesis
    by (auto simp: m MemoryDriver_tag_def MemoryLRUDriver_tag_def Let_def tagSet_foldl_addToTag
          dom_foldl_addToTag split: option.splits)
qed

theorem tag_tests_physical_presence_witness:
  "ownLookup (data (MemoryDriver_after_set MemoryDriver_defaults ''a'' (JStr ''v'') (Some 1)))
       (getFullKey (options (MemoryDriver_after_set MemoryDriver_defaults ''a'' (JStr ''v'') (Some 1)))
          (KStr ''a''))
   \<and> map_of (data (MemoryDriver_after_set MemoryDriver_defaults ''a'' (JStr ''v'') (Some 1)))
       (getFullKey (options (MemoryDriver_after_set MemoryDriver_defaults ''a'' (JStr ''v'') (Some 1)))
          (KStr ''a'')) \<noteq> None
   \<and> fst (MemoryDriver_tag (MemoryDriver_after_set MemoryDriver_defaults ''a'' (JStr ''v'') (Some 1))
            (KStr ''a'') [''t''])
   \<and> tagSet (tags (snd (MemoryDriver_tag
         (MemoryDriver_after_set MemoryDriver_defaults ''a'' (JStr ''v'') (Some 1))
         (KStr ''a'') [''t'']))) ''t'' = {''a''}
   \<and> map_of (data (MemoryLRUDriver_new MemoryDriver_defaults))
       (getFullKey (options (MemoryLRUDriver_new MemoryDriver_defaults)) (KStr ''a'')) = None
   \<and> MemoryLRUDriver_tag (MemoryLRUDriver_new MemoryDriver_defaults) (KStr ''a'') [''t'']
       = (False, MemoryLRUDriver_new MemoryDriver_defaults)"
proof -
  let ?S = "MemoryDriver_after_set MemoryDriver_defaults ''a'' (JStr ''v'') (Some 1)"
  let ?L = "MemoryLRUDriver_new MemoryDriver_defaults"
  have S: "?S = \<lparr> data = [(''a'', \<lparr> t = 1000, v = JStr ''v'' \<rparr>)],
                  stats = \<lparr> hits = 0, misses = 0, keys = 1, ksize = 1, vsize = 1 \<rparr>,
                  options = MemoryDriver_defaults, tags = [] \<rparr>"
    by (simp add: MemoryDriver_after_set_simp MemoryDriver_defaults_def wrap_def getValueSize_def
        ObjectPrototype_def)
  have fk: "getFullKey (options ?S) (KStr ''a'') = ''a''"
    unfolding S by (simp add: MemoryDriver_defaults_def getFullKey_def toString_def)
  have o: "ownLookup (data ?S) (getFullKey (options ?S) (KStr ''a''))"
    unfolding fk by (simp add: S ownLookup_def ObjectPrototype_def)
  have a: "map_of (data ?S) (getFullKey (options ?S) (KStr ''a'')) \<noteq> None"
    unfolding fk by (simp add: S)
  have b: "map_of (data ?L) (getFullKey (options ?L) (KStr ''a'')) = None"
    by (simp add: MemoryLRUDriver_new_def)
  have e: "tagSet (tags ?S) ''t'' = {}"
    by (simp add: S tagSet_def)
  have "fst (MemoryDriver_tag ?S (KStr ''a'') [''t''])
        \<and> tagSet (tags (snd (MemoryDriver_tag ?S (KStr ''a'') [''t'']))) ''t'' = {''a''}
        \<and> MemoryLRUDriver_tag ?L (KStr ''a'') [''t''] = (False, ?L)"
    using tag_tests_physical_presence [of ?S "KStr ''a''" "[''t'']" ?L] o a b
    by (simp add: fk e prod_eq_iff)
  with o a b show ?thesis by simp
qed

text \<open>
  Outside the bounds of the amended claim: in an empty MemoryDriver with the default
  options (no prefix), \<^verbatim>\<open>tag('constructor', ['t'])\<close> returns true and files the key
  under the tag, because \<^verbatim>\<open>this.data[fullKey]\<close> finds the member that the container
  inherits from \<^verbatim>\<open>Object.prototype\<close>.
\<close>

lemma MemoryDriver_tag_inherited_name:
  "MemoryDriver_tag (MemoryDriver_new MemoryDriver_defaults) (KStr ''constructor'') [''t'']
     = (True, \<lparr> data = [], stats = \<lparr> hits = 0, misses = 0, keys = 0, ksize = 0, vsize = 0 \<rparr>,
               options = MemoryDriver_defaults, tags = [(''t'', [''constructor''])] \<rparr>)"
  by (simp add: MemoryDriver_tag_def MemoryDriver_new_def MemoryDriver_defaults_def zero_stats_def
      getFullKey_def toString_def getProperty_def ObjectPrototype_def addToTag_def Let_def)

subsection \<open>Reading expired entries when \<^verbatim>\<open>deleteOnExpire\<close> is off\<close>

text \<open>
  Claim C1, on the code: in a MemoryDriver with \<^verbatim>\<open>deleteOnExpire = false\<close>, store the
  key \<open>a\<close> at time 0 with a TTL of one second and read it at time 2000, after its
  expiry. The entry is not removed, as the claim says, but it is not reported as
  absent either: \<^verbatim>\<open>has\<close> returns true, \<^verbatim>\<open>get\<close> returns the value and \<^verbatim>\<open>getTtl\<close>
  returns the expiry time, because \<^verbatim>\<open>checkExpiry\<close> returns false only inside the test
  of \<^verbatim>\<open>deleteOnExpire\<close>. On the same input the legacy Cache does what the claim says:
  \<^verbatim>\<open>has\<close> returns false, \<^verbatim>\<open>get\<close> returns \<^verbatim>\<open>undefined\<close> and the entry stays.
\<close>

theorem MemoryDriver_serves_expired_entry:
  "MemoryDriver_after_set (MemoryDriver_defaults\<lparr> deleteOnExpire := False \<rparr>)
       ''a'' (JStr ''v'') (Some 1)
     = \<lparr> data = [(''a'', \<lparr> t = 1000, v = JStr ''v'' \<rparr>)],
         stats = \<lparr> hits = 0, misses = 0, keys = 1, ksize = 1, vsize = 1 \<rparr>,
         options = MemoryDriver_defaults\<lparr> deleteOnExpire := False \<rparr>, tags = [] \<rparr>
   \<and> MemoryDriver_has (MemoryDriver_after_set (MemoryDriver_defaults\<lparr> deleteOnExpire := False \<rparr>)
        ''a'' (JStr ''v'') (Some 1)) 2000 (KStr ''a'')
     = (True, MemoryDriver_after_set (MemoryDriver_defaults\<lparr> deleteOnExpire := False \<rparr>)
        ''a'' (JStr ''v'') (Some 1))
   \<and> fst (MemoryDriver_get (MemoryDriver_after_set (MemoryDriver_defaults\<lparr> deleteOnExpire := False \<rparr>)
        ''a'' (JStr ''v'') (Some 1)) 2000 (KStr ''a'')) = JStr ''v''
   \<and> MemoryDriver_getTtl (MemoryDriver_after_set (MemoryDriver_defaults\<lparr> deleteOnExpire := False \<rparr>)
        ''a'' (JStr ''v'') (Some 1)) 2000 (KStr ''a'')
     = (Some 1000, MemoryDriver_after_set (MemoryDriver_defaults\<lparr> deleteOnExpire := False \<rparr>)
        ''a'' (JStr ''v'') (Some 1))
   \<and> \<not> Cache_has (Cache_after_set (DEFAULT_OPTIONS\<lparr> deleteOnExpire := False \<rparr>)
        ''a'' (JStr ''v'') (Some 1)) 2000 (KStr ''a'')
   \<and> fst (Cache_get (Cache_after_set (DEFAULT_OPTIONS\<lparr> deleteOnExpire := False \<rparr>)
        ''a'' (JStr ''v'') (Some 1)) 2000 (KStr ''a'')) = JUndefined
   \<and> data (snd (Cache_get (Cache_after_set (DEFAULT_OPTIONS\<lparr> deleteOnExpire := False \<rparr>)
        ''a'' (JStr ''v'') (Some 1)) 2000 (KStr ''a'')))
     = [(''a'', \<lparr> t = 1000, v = JStr ''v'' \<rparr>)]"
  by (simp add: MemoryDriver_after_set_simp Cache_after_set_simp MemoryDriver_defaults_def
      DEFAULT_OPTIONS_def wrap_def getValueSize_def MemoryDriver_has_def MemoryDriver_get_def
      MemoryDriver_getTtl_def MemoryDriver_checkExpiry_def getFullKey_def toString_def unwrap_def
      Cache_has_def Cache_get_def fastProperty_def checkTTL_def getValLength_def Let_def
      getProperty_def ObjectPrototype_def)

subsection \<open>\<^verbatim>\<open>take\<close> against \<^verbatim>\<open>get\<close> followed by \<^verbatim>\<open>del\<close>\<close>

text \<open>
  Claim C6, on the code: in the legacy Cache with its default options, store the key
  \<open>k\<close> with the value \<^verbatim>\<open>undefined\<close> and call \<^verbatim>\<open>take('k')\<close>. It returns \<^verbatim>\<open>undefined\<close>,
  as \<^verbatim>\<open>get\<close> does, but the entry stays and the key is still counted, where \<^verbatim>\<open>get\<close>
  followed by \<^verbatim>\<open>del\<close> removes the entry: \<^verbatim>\<open>take\<close> calls \<^verbatim>\<open>del\<close> only when the value
  it read is not \<^verbatim>\<open>undefined\<close>. The same happens with \<^verbatim>\<open>deleteOnExpire = false\<close> for a
  key stored at time 0 with a TTL of one second and taken at time 2000: \<^verbatim>\<open>take\<close> keeps
  the expired entry, \<^verbatim>\<open>get\<close> followed by \<^verbatim>\<open>del\<close> removes it.
\<close>

theorem Cache_take_keeps_entry:
  "Cache_take (Cache_after_set DEFAULT_OPTIONS ''k'' JUndefined None) 0 (KStr ''k'')
     = (JUndefined,
        \<lparr> data = [(''k'', \<lparr> t = 0, v = JUndefined \<rparr>)],
          stats = \<lparr> hits = 1, misses = 0, keys = 1, ksize = 1, vsize = 0 \<rparr>,
          options = DEFAULT_OPTIONS, dataMap = None \<rparr>)
   \<and> Cache_get_then_del (Cache_after_set DEFAULT_OPTIONS ''k'' JUndefined None) 0 (KStr ''k'')
     = (JUndefined,
        \<lparr> data = [],
          stats = \<lparr> hits = 1, misses = 0, keys = 0, ksize = 0, vsize = 0 \<rparr>,
          options = DEFAULT_OPTIONS, dataMap = None \<rparr>)
   \<and> Cache_take (Cache_after_set (DEFAULT_OPTIONS\<lparr> deleteOnExpire := False \<rparr>)
                   ''k'' (JStr ''v'') (Some 1)) 2000 (KStr ''k'')
     = (JUndefined,
        \<lparr> data = [(''k'', \<lparr> t = 1000, v = JStr ''v'' \<rparr>)],
          stats = \<lparr> hits = 0, misses = 1, keys = 0, ksize = 0, vsize = 0 \<rparr>,
          options = DEFAULT_OPTIONS\<lparr> deleteOnExpire := False \<rparr>, dataMap = None \<rparr>)
   \<and> Cache_get_then_del (Cache_after_set (DEFAULT_OPTIONS\<lparr> deleteOnExpire := False \<rparr>)
                   ''k'' (JStr ''v'') (Some 1)) 2000 (KStr ''k'')
     = (JUndefined,
        \<lparr> data = [],
          stats = \<lparr> hits = 0, misses = 1, keys = - 1, ksize = - 1, vsize = - 1 \<rparr>,
          options = DEFAULT_OPTIONS\<lparr> deleteOnExpire := False \<rparr>, dataMap = None \<rparr>)"
  by (simp add: Cache_after_set_simp DEFAULT_OPTIONS_def Cache_take_def Cache_get_then_del_def
      Cache_get_def Cache_del_def fastProperty_def toString_def checkTTL_def getValLength_def
      Let_def getProperty_def deleteProperty_def ObjectPrototype_def)

subsection \<open>Hits and misses of \<^verbatim>\<open>mget\<close>\<close>

text \<open>
  Claim C10, on the code: in a MemoryDriver with \<^verbatim>\<open>deleteOnExpire = false\<close>, store
  the key \<open>a\<close> at time 0 with a TTL of one second. At time 2000 the key is expired,
  and \<^verbatim>\<open>mget(['a'])\<close> returns it and increments the hits counter, not the misses
  counter; on the same input \<^verbatim>\<open>mget\<close> of the legacy Cache omits the key and counts a
  miss. In an empty MemoryDriver with the default options, \<^verbatim>\<open>mget(['constructor'])\<close>
  counts a hit for the absent key and returns \<^verbatim>\<open>null\<close> for it: the lookup
  \<^verbatim>\<open>this.data[fullKey]\<close> finds the member that the container inherits from
  \<^verbatim>\<open>Object.prototype\<close>.
\<close>

theorem MemoryDriver_mget_counts_hit_without_live_entry:
  "MemoryDriver_mget (MemoryDriver_after_set (MemoryDriver_defaults\<lparr> deleteOnExpire := False \<rparr>)
        ''a'' (JStr ''v'') (Some 1)) 2000 [KStr ''a'']
     = ([(''a'', JStr ''v'')],
        \<lparr> data = [(''a'', \<lparr> t = 1000, v = JStr ''v'' \<rparr>)],
          stats = \<lparr> hits = 1, misses = 0, keys = 1, ksize = 1, vsize = 1 \<rparr>,
          options = MemoryDriver_defaults\<lparr> deleteOnExpire := False \<rparr>, tags = [] \<rparr>)
   \<and> Cache_mget (Cache_after_set (DEFAULT_OPTIONS\<lparr> deleteOnExpire := False \<rparr>)
        ''a'' (JStr ''v'') (Some 1)) 2000 [KStr ''a'']
     = ([],
        \<lparr> data = [(''a'', \<lparr> t = 1000, v = JStr ''v'' \<rparr>)],
          stats = \<lparr> hits = 0, misses = 1, keys = 1, ksize = 1, vsize = 1 \<rparr>,
          options = DEFAULT_OPTIONS\<lparr> deleteOnExpire := False \<rparr>, dataMap = None \<rparr>)
   \<and> MemoryDriver_mget (MemoryDriver_new MemoryDriver_defaults) 0 [KStr ''constructor'']
     = ([(''constructor'', JNull)],
        \<lparr> data = [],
          stats = \<lparr> hits = 1, misses = 0, keys = 0, ksize = 0, vsize = 0 \<rparr>,
          options = MemoryDriver_defaults, tags = [] \<rparr>)"
  by (simp add: MemoryDriver_after_set_simp Cache_after_set_simp MemoryDriver_defaults_def
      DEFAULT_OPTIONS_def wrap_def MemoryDriver_mget_def Cache_mget_def MemoryDriver_new_def
      MemoryDriver_checkExpiry_def getFullKey_def toString_def unwrap_def getValueSize_def
      getValLength_def zero_stats_def setResult_def Let_def getProperty_def ObjectPrototype_def)

subsection \<open>Listing keys by glob pattern\<close>

text \<open>
  The three replacements act on each character of the pattern by itself, and the
  expression they build is read back as one atom per character of the pattern.
\<close>

lemma replacements_Cons:
  "replace_question (replace_star (replace_escaped (c # p)))
     = replaced_char c @ replace_question (replace_star (replace_escaped p))"
  by (simp add: replaced_char_def replace_question_def replace_star_def replace_escaped_def)

lemma replaced_char_cases:
  "replaced_char c = (if c \<in> set escaped_class then [backslash, c]
              else if c = CHR ''*'' then ''.*''
              else if c = CHR ''?'' then ''.''
              else [c])"
  by (auto simp: replaced_char_def replace_question_def replace_star_def replace_escaped_def
        escaped_class_def backslash_def)

lemma replacements_hd_not_star:
  assumes "replace_question (replace_star (replace_escaped p)) = d # r"
  shows "d \<noteq> CHR ''*''"
proof (cases p)
  case Nil
  then show ?thesis
    using assms by (simp add: replace_question_def replace_star_def replace_escaped_def)
next
  case (Cons c q)
  then show ?thesis
    using assms by (auto simp: replacements_Cons replaced_char_cases backslash_def split: if_splits)
qed

lemma parseAtoms_replacements:
  "parseAtoms (replace_question (replace_star (replace_escaped p))) = map globAtom p"
proof (induction p)
  case Nil
  then show ?case
    by (simp add: replace_question_def replace_star_def replace_escaped_def)
next
  case (Cons c p)
  let ?rest = "replace_question (replace_star (replace_escaped p))"
  show ?case
  proof (cases ?rest)
    case Nil
    then show ?thesis
      using Cons
      by (auto simp: replacements_Cons replaced_char_cases globAtom_def escaped_class_def backslash_def)
  next
    case (Cons d r)
    then have "d \<noteq> CHR ''*''" by (rule replacements_hd_not_star)
    then show ?thesis
      using Cons Cons.IH
      by (auto simp: replacements_Cons replaced_char_cases globAtom_def escaped_class_def backslash_def)
  qed
qed

lemma matchAtoms_glob:
  "matchAtoms (map globAtom p) k = glob notLineTerminator p k"
  by (induction notLineTerminator p k rule: glob.induct)
     (auto simp: globAtom_def notLineTerminator_def)

lemma RegExp_test_glob:
  "RegExp_test (patternToRegex p) k = glob notLineTerminator p k"
  by (simp add: RegExp_test_def patternToRegex_def parseAtoms_replacements matchAtoms_glob butlast_append)












text \<open>
  Outside the bounds of the amended claim, two runs of the MemoryDriver. The key made
  of \<open>a\<close>, a line feed and \<open>b\<close> is live and the glob pattern \<^verbatim>\<open>*\<close> matches it, but
  \<^verbatim>\<open>keys('*')\<close> returns nothing: \<^verbatim>\<open>patternToRegex\<close> builds the expression without
  the \<^verbatim>\<open>s\<close> flag, so its dot stops at a line terminator. With \<^verbatim>\<open>deleteOnExpire =
  false\<close>, \<^verbatim>\<open>keys()\<close> lists a key that is expired.
\<close>

lemma MemoryDriver_keys_star_misses_line_feed:
  "MemoryDriver_has
        (MemoryDriver_after_set MemoryDriver_defaults [CHR ''a'', CHR 0x0A, CHR ''b''] (JStr ''v'') None)
        0 (KStr [CHR ''a'', CHR 0x0A, CHR ''b''])
     = (True,
        MemoryDriver_after_set MemoryDriver_defaults [CHR ''a'', CHR 0x0A, CHR ''b''] (JStr ''v'') None)
   \<and> fst (MemoryDriver_keys
        (MemoryDriver_after_set MemoryDriver_defaults [CHR ''a'', CHR 0x0A, CHR ''b''] (JStr ''v'') None)
        0 None) = [[CHR ''a'', CHR 0x0A, CHR ''b'']]
   \<and> glob anyChar ''*'' [CHR ''a'', CHR 0x0A, CHR ''b'']
   \<and> fst (MemoryDriver_keys
        (MemoryDriver_after_set MemoryDriver_defaults [CHR ''a'', CHR 0x0A, CHR ''b''] (JStr ''v'') None)
        0 (Some ''*'')) = []
   \<and> fst (MemoryDriver_keys
        (MemoryDriver_after_set (MemoryDriver_defaults\<lparr> deleteOnExpire := False \<rparr>)
           ''a'' (JStr ''v'') (Some 1)) 2000 None) = [''a'']"
  by (simp add: MemoryDriver_after_set_simp
      MemoryDriver_defaults_def toString_def MemoryDriver_keys_def MemoryDriver_checkExpiry_def
      MemoryDriver_has_def getFullKey_def wrap_def stripPrefix_def anyChar_def RegExp_test_glob
      notLineTerminator_def isLineTerminator_def Let_def getProperty_def ownEntries_def
      ObjectPrototype_def)

end
